theory Spec2Isabelle
  imports Main
begin

section \<open>Data model\<close>

text \<open>
  Documents are modelled as the Mongoose schemas declare them. An ObjectId is a natural
  number, a Date is its millisecond timestamp (an integer), a JavaScript Number that
  only ever holds a counter is an integer. A handler receives the documents its
  \<^verbatim>\<open>findById\<close> calls load (\<open>None\<close> when the lookup finds nothing) and returns
  the documents it saves together with the HTTP response.
\<close>

type_synonym object_id = nat
type_synonym timestamp = int

datatype listing_status = Active | Sold | StatusPending | Removed

datatype moderation_status = ModerationPending | Approved | Rejected

text \<open>
  A failed request: \<open>Failure code message\<close> is
  \<^verbatim>\<open>res.status(code).json({ success: false, message })\<close>,
  \<open>ValidationFailed code message errors\<close> carries a list of validation errors (of
  express-validator, or the invalid paths of a Mongoose \<^verbatim>\<open>ValidationError\<close>) beside
  the optional message, and \<open>VerificationRequired code message\<close> is the
  response of \<^verbatim>\<open>verifiedOnly\<close>, which adds \<^verbatim>\<open>requiresVerification: true\<close>.
\<close>

datatype failure =
    Failure nat string
  | ValidationFailed nat "string option" "string list"
  | VerificationRequired nat string

record report =
  report_user :: object_id
  report_reason :: string
  report_createdAt :: timestamp

record image =
  url :: string
  filename :: string

record listing =
  listing_id :: object_id
  title :: string
  description :: string
  price :: int
  category :: string
  condition :: string
  images :: "image list"
  location_area :: string
  location_city :: string
  seller :: object_id
  createdAt :: timestamp
  status :: listing_status
  featured :: bool
  views :: int
  favoritesCount :: int
  reports :: "report list"
  moderationStatus :: moderation_status
  moderationNote :: "string option"
  isDeleted :: bool
  deletedAt :: "timestamp option"
  deleteReason :: "string option"

datatype verification_status = Unverified | VerificationPending | VerificationApproved | VerificationRejected

record verification =
  verification_status :: verification_status
  documentType :: "string option"
  documentImages :: "image list"
  submittedAt :: "timestamp option"
  reviewedAt :: "timestamp option"
  reviewedBy :: "object_id option"
  rejectionReason :: "string option"

datatype notification_type = NMessage | NListing | NSystem

record notification =
  notification_type :: notification_type
  notification_title :: string
  notification_content :: string
  notification_read :: bool
  relatedId :: "object_id option"
  notification_createdAt :: timestamp

record user =
  user_id :: object_id
  name :: string
  email :: string
  favorites :: "object_id list"
  notifications :: "notification list"
  isAdmin :: bool
  isActive :: bool
  verification :: verification

section \<open>Favorite toggle\<close>

text \<open>
  \<^verbatim>\<open>Array.prototype.indexOf\<close>: the index of the first occurrence, or \<open>-1\<close>.
\<close>

fun indexOf :: "'a list \<Rightarrow> 'a \<Rightarrow> int" where
  "indexOf [] x = - 1"
| "indexOf (y # ys) x =
     (if y = x then 0 else (let i = indexOf ys x in if i = - 1 then - 1 else i + 1))"

text \<open>\<^verbatim>\<open>xs.splice(i, 1)\<close> for an index \<open>i\<close> that \<open>indexOf\<close> returned.\<close>

definition splice1 :: "int \<Rightarrow> 'a list \<Rightarrow> 'a list" where
  "splice1 i xs = take (nat i) xs @ drop (nat i + 1) xs"

record favorite_response =
  isFavorited :: bool
  response_favoritesCount :: int

text \<open>
  \<^verbatim>\<open>POST /api/listings/:id/favorite\<close>. The handler saves the user and then the
  listing, and answers with the new state of both.
\<close>

definition toggle_favorite ::
  "user \<Rightarrow> listing option \<Rightarrow> failure + (user \<times> listing \<times> favorite_response)" where
  "toggle_favorite u found =
     (case found of
        None \<Rightarrow> Inl (Failure 404 ''Listing not found'')
      | Some l \<Rightarrow>
          (let favoriteIndex = indexOf (favorites u) (listing_id l) in
           if favoriteIndex > - 1
           then
             (let u' = u\<lparr>favorites := splice1 favoriteIndex (favorites u)\<rparr>;
                  l' = l\<lparr>favoritesCount := max 0 (favoritesCount l - 1)\<rparr>
              in Inr (u', l', \<lparr>isFavorited = (favoriteIndex = - 1),
                                response_favoritesCount = favoritesCount l'\<rparr>))
           else
             (let u' = u\<lparr>favorites := favorites u @ [listing_id l]\<rparr>;
                  l' = l\<lparr>favoritesCount := favoritesCount l + 1\<rparr>
              in Inr (u', l', \<lparr>isFavorited = (favoriteIndex = - 1),
                                response_favoritesCount = favoritesCount l'\<rparr>))))"

text \<open>Two toggles in a row by the same user on the same listing.\<close>

definition toggle_twice ::
  "user \<Rightarrow> listing \<Rightarrow> failure + (user \<times> listing \<times> favorite_response)" where
  "toggle_twice u l =
     (case toggle_favorite u (Some l) of
        Inl e \<Rightarrow> Inl e
      | Inr (u', l', r) \<Rightarrow> toggle_favorite u' (Some l'))"

text \<open>What a toggle leaves in the store: the user's favorites and the listing's counter.\<close>

definition toggled_state ::
  "failure + (user \<times> listing \<times> favorite_response) \<Rightarrow> (object_id list \<times> int) option" where
  "toggled_state res =
     (case res of Inl e \<Rightarrow> None | Inr (u', l', r) \<Rightarrow> Some (favorites u', favoritesCount l'))"

text \<open>
  The listing after a sequence of toggle requests, one per user document in the list
  (each with whatever favorites that user holds at the time of the request).
\<close>

fun after_toggles :: "listing \<Rightarrow> user list \<Rightarrow> listing" where
  "after_toggles l [] = l"
| "after_toggles l (u # us) =
     (case toggle_favorite u (Some l) of
        Inl e \<Rightarrow> after_toggles l us
      | Inr (u', l', r) \<Rightarrow> after_toggles l' us)"

subsection \<open>Example documents\<close>

definition no_verification :: verification where
  "no_verification =
     \<lparr>verification_status = Unverified, documentType = None, documentImages = [],
      submittedAt = None, reviewedAt = None, reviewedBy = None, rejectionReason = None\<rparr>"

definition new_user :: "object_id \<Rightarrow> string \<Rightarrow> user" where
  "new_user i n =
     \<lparr>user_id = i, name = n, email = n @ ''@example.com'', favorites = [], notifications = [],
      isAdmin = False, isActive = True, verification = no_verification\<rparr>"

definition lamp :: listing where
  "lamp =
     \<lparr>listing_id = 7, title = ''Desk lamp'', description = ''Works fine'', price = 150,
      category = ''Furniture'', condition = ''Good'', images = [], location_area = ''Maadi'',
      location_city = ''Cairo'', seller = 1, createdAt = 0, status = Active, featured = False, views = 0,
      favoritesCount = 0, reports = [], moderationStatus = Approved, moderationNote = None,
      isDeleted = False, deletedAt = None, deleteReason = None\<rparr>"

text \<open>The lamp, soft-deleted at time 0.\<close>

definition deleted_lamp :: listing where
  "deleted_lamp =
     lamp\<lparr>status := Sold, isDeleted := True, deletedAt := Some 0,
          deleteReason := Some ''Item Sold''\<rparr>"

text \<open>The lamp before any moderation decision, and after its owner soft-deleted it at time 0.\<close>

definition pending_lamp :: listing where
  "pending_lamp = lamp\<lparr>moderationStatus := ModerationPending\<rparr>"

definition deleted_pending_lamp :: listing where
  "deleted_pending_lamp =
     pending_lamp\<lparr>isDeleted := True, deletedAt := Some 0, deleteReason := Some ''Item Sold'',
                  status := Sold\<rparr>"

text \<open>A user who waits for a review and already holds fifty notifications.\<close>

definition applicant :: user where
  "applicant =
     (new_user 1 ''sara'')
       \<lparr>notifications :=
          replicate 50 \<lparr>notification_type = NMessage, notification_title = ''New Message'',
                         notification_content = ''bob sent you a message'',
                         notification_read = False, relatedId = Some 20,
                         notification_createdAt = 0\<rparr>,
        verification := no_verification\<lparr>verification_status := VerificationPending\<rparr>\<rparr>"

definition admin_user :: user where
  "admin_user = (new_user 9 ''admin'')\<lparr>isAdmin := True\<rparr>"

section \<open>Content filter\<close>

subsection \<open>Regular expressions\<close>

text \<open>
  \<^verbatim>\<open>filterPersonalInfo\<close> is written with JavaScript regular expressions, so the
  model carries a matcher for the constructs its patterns use: literals, character
  classes, greedy bounded repetition of a class, \<^verbatim>\<open>\b\<close>, greedy \<^verbatim>\<open>?\<close>, alternation
  and concatenation, with or without the \<^verbatim>\<open>i\<close> flag. A string is the list of its
  code units; \<open>char\<close> covers the code units below 256.

  A cursor is a position in the subject: the character before it (needed by
  \<^verbatim>\<open>\b\<close>) and the rest of the input.
\<close>

type_synonym cursor = "char option \<times> string"

datatype class_item = One char | Range char char | Digit | Space

definition code_unit :: "char \<Rightarrow> nat" where
  "code_unit c = of_char c"

definition is_digit :: "char \<Rightarrow> bool" where
  "is_digit c = (48 \<le> code_unit c \<and> code_unit c \<le> 57)"

text \<open>\<^verbatim>\<open>\s\<close>: the ECMAScript white space and line terminators below 256.\<close>

definition is_space :: "char \<Rightarrow> bool" where
  "is_space c = (code_unit c \<in> {9, 10, 11, 12, 13, 32, 160})"

text \<open>\<^verbatim>\<open>\w\<close>, which decides \<^verbatim>\<open>\b\<close>: letters, digits and the underscore.\<close>

definition is_word :: "char \<Rightarrow> bool" where
  "is_word c =
     ((97 \<le> code_unit c \<and> code_unit c \<le> 122) \<or> (65 \<le> code_unit c \<and> code_unit c \<le> 90)
      \<or> is_digit c \<or> code_unit c = 95)"

text \<open>
  Under the \<^verbatim>\<open>i\<close> flag two characters match when they canonicalize (by
  \<^verbatim>\<open>toUpperCase\<close>) to the same character; \<open>case_variants c\<close> lists the code units
  below 256 that canonicalize like \<open>c\<close>.
\<close>

definition case_variants :: "char \<Rightarrow> char list" where
  "case_variants c =
     (let n = code_unit c in
      if (97 \<le> n \<and> n \<le> 122) \<or> (224 \<le> n \<and> n \<le> 254 \<and> n \<noteq> 247)
      then [c, char_of (n - 32)]
      else if (65 \<le> n \<and> n \<le> 90) \<or> (192 \<le> n \<and> n \<le> 222 \<and> n \<noteq> 215)
      then [c, char_of (n + 32)]
      else [c])"

fun in_item :: "class_item \<Rightarrow> char \<Rightarrow> bool" where
  "in_item (One a) c = (c = a)"
| "in_item (Range a b) c = (code_unit a \<le> code_unit c \<and> code_unit c \<le> code_unit b)"
| "in_item Digit c = is_digit c"
| "in_item Space c = is_space c"

definition in_class :: "bool \<Rightarrow> class_item list \<Rightarrow> char \<Rightarrow> bool" where
  "in_class ci cls c =
     (if ci then list_ex (\<lambda>v. list_ex (\<lambda>i. in_item i v) cls) (case_variants c)
      else list_ex (\<lambda>i. in_item i c) cls)"

datatype regex =
    Lit string
  | Cls "class_item list"
  | Rep "class_item list" nat "nat option"
  | WordB
  | Opt regex
  | Alt regex regex
  | Seq regex regex

text \<open>
  The matcher returns every cursor at which a match starting at the given cursor can
  end, in the order in which a backtracking matcher tries them: the head of the list
  is the match that \<^verbatim>\<open>RegExp.prototype.exec\<close> reports at that position.
\<close>

fun lit :: "bool \<Rightarrow> string \<Rightarrow> cursor \<Rightarrow> cursor list" where
  "lit ci [] cur = [cur]"
| "lit ci (a # w) (p, []) = []"
| "lit ci (a # w) (p, c # cs) =
     (if (if ci then a \<in> set (case_variants c) else c = a)
      then lit ci w (Some c, cs) else [])"

text \<open>
  \<open>rep ci cls lo hi\<close> is \<^verbatim>\<open>[cls]{lo,hi}\<close> (\<open>hi = None\<close>: no upper bound), greedy:
  the longer runs come first.
\<close>

fun rep :: "bool \<Rightarrow> class_item list \<Rightarrow> nat \<Rightarrow> nat option \<Rightarrow> cursor \<Rightarrow> cursor list" where
  "rep ci cls lo hi (p, []) = (if lo = 0 then [(p, [])] else [])"
| "rep ci cls lo hi (p, c # cs) =
     (if in_class ci cls c \<and> hi \<noteq> Some 0
      then rep ci cls (lo - 1) (map_option (\<lambda>h. h - 1) hi) (Some c, cs) else [])
     @ (if lo = 0 then [(p, c # cs)] else [])"

definition at_boundary :: "cursor \<Rightarrow> bool" where
  "at_boundary cur =
     ((case fst cur of None \<Rightarrow> False | Some c \<Rightarrow> is_word c)
      \<noteq> (case snd cur of [] \<Rightarrow> False | c # cs \<Rightarrow> is_word c))"

fun ends :: "bool \<Rightarrow> regex \<Rightarrow> cursor \<Rightarrow> cursor list" where
  "ends ci (Lit w) cur = lit ci w cur"
| "ends ci (Cls cls) cur = rep ci cls 1 (Some 1) cur"
| "ends ci (Rep cls lo hi) cur = rep ci cls lo hi cur"
| "ends ci WordB cur = (if at_boundary cur then [cur] else [])"
| "ends ci (Opt r) cur = ends ci r cur @ [cur]"
| "ends ci (Alt r1 r2) cur = ends ci r1 cur @ ends ci r2 cur"
| "ends ci (Seq r1 r2) cur = concat (map (ends ci r2) (ends ci r1 cur))"

fun seq :: "regex list \<Rightarrow> regex" where
  "seq [] = Lit []"
| "seq [r] = r"
| "seq (r # rs) = Seq r (seq rs)"

fun alts :: "string list \<Rightarrow> regex" where
  "alts [] = Lit []"
| "alts [w] = Lit w"
| "alts (w # ws) = Alt (Lit w) (alts ws)"

record pattern =
  body :: regex
  ignoreCase :: bool

text \<open>The length of the match at a cursor, if the pattern matches there.\<close>

definition exec_at :: "pattern \<Rightarrow> cursor \<Rightarrow> nat option" where
  "exec_at pat cur =
     (case ends (ignoreCase pat) (body pat) cur of
        [] \<Rightarrow> None
      | e # es \<Rightarrow> Some (length (snd cur) - length (snd e)))"

text \<open>
  \<^verbatim>\<open>String.prototype.replace\<close> with a global pattern and a replacement without
  \<^verbatim>\<open>$\<close>: the subject is scanned from the left, every match is replaced, and the
  scan resumes behind the match (one character further after an empty match).
  \<open>skip\<close> counts the characters of the current match still to be dropped.
\<close>

fun replace_from :: "pattern \<Rightarrow> string \<Rightarrow> char option \<Rightarrow> string \<Rightarrow> nat \<Rightarrow> string" where
  "replace_from pat repl p [] skip =
     (if skip = 0 \<and> exec_at pat (p, []) \<noteq> None then repl else [])"
| "replace_from pat repl p (c # cs) skip =
     (if skip > 0 then replace_from pat repl (Some c) cs (skip - 1)
      else (case exec_at pat (p, c # cs) of
              None \<Rightarrow> c # replace_from pat repl (Some c) cs 0
            | Some n \<Rightarrow>
                if n = 0 then repl @ c # replace_from pat repl (Some c) cs 0
                else repl @ replace_from pat repl (Some c) cs (n - 1)))"

definition replace_all :: "pattern \<Rightarrow> string \<Rightarrow> string \<Rightarrow> string" where
  "replace_all pat repl s = replace_from pat repl None s 0"

text \<open>
  \<^verbatim>\<open>String.prototype.match\<close> with a global pattern: the list of all matches; the
  empty list stands for \<^verbatim>\<open>null\<close>.
\<close>

fun matches_from :: "pattern \<Rightarrow> char option \<Rightarrow> string \<Rightarrow> nat \<Rightarrow> string list" where
  "matches_from pat p [] skip =
     (if skip = 0 \<and> exec_at pat (p, []) \<noteq> None then [[]] else [])"
| "matches_from pat p (c # cs) skip =
     (if skip > 0 then matches_from pat (Some c) cs (skip - 1)
      else (case exec_at pat (p, c # cs) of
              None \<Rightarrow> matches_from pat (Some c) cs 0
            | Some n \<Rightarrow> take n (c # cs) # matches_from pat (Some c) cs (n - 1)))"

definition match_all :: "pattern \<Rightarrow> string \<Rightarrow> string list" where
  "match_all pat s = matches_from pat None s 0"

text \<open>
  The characters a match of a pattern can contain: those a literal or a class of the
  pattern accepts.
\<close>

fun consumes :: "bool \<Rightarrow> regex \<Rightarrow> char \<Rightarrow> bool" where
  "consumes ci (Lit w) c = (if ci then list_ex (\<lambda>a. a \<in> set (case_variants c)) w else c \<in> set w)"
| "consumes ci (Cls cls) c = in_class ci cls c"
| "consumes ci (Rep cls lo hi) c = in_class ci cls c"
| "consumes ci WordB c = False"
| "consumes ci (Opt r) c = consumes ci r c"
| "consumes ci (Alt r1 r2) c = (consumes ci r1 c \<or> consumes ci r2 c)"
| "consumes ci (Seq r1 r2) c = (consumes ci r1 c \<or> consumes ci r2 c)"

text \<open>No match of the pattern contains an opening bracket.\<close>

definition bracket_free :: "pattern \<Rightarrow> bool" where
  "bracket_free pat = (\<not> consumes (ignoreCase pat) (body pat) CHR ''['')"

subsection \<open>The patterns\<close>

definition lower :: class_item where "lower = Range CHR ''a'' CHR ''z''"
definition upper :: class_item where "upper = Range CHR ''A'' CHR ''Z''"
definition digit09 :: class_item where "digit09 = Range CHR ''0'' CHR ''9''"

text \<open>\<^verbatim>\<open>[-a-zA-Z0-9@:%._\+~#=]\<close>\<close>

definition url_host_class :: "class_item list" where
  "url_host_class =
     [One CHR ''-'', lower, upper, digit09, One CHR ''@'', One CHR '':'', One CHR ''%'',
      One CHR ''.'', One CHR ''_'', One CHR ''+'', One CHR ''~'', One CHR ''#'', One CHR ''='']"

text \<open>\<^verbatim>\<open>[a-zA-Z0-9()]\<close>\<close>

definition url_tld_class :: "class_item list" where
  "url_tld_class = [lower, upper, digit09, One CHR ''('', One CHR '')'']"

text \<open>\<^verbatim>\<open>[-a-zA-Z0-9()@:%_\+.~#?&//=]\<close>\<close>

definition url_path_class :: "class_item list" where
  "url_path_class =
     [One CHR ''-'', lower, upper, digit09, One CHR ''('', One CHR '')'', One CHR ''@'',
      One CHR '':'', One CHR ''%'', One CHR ''_'', One CHR ''+'', One CHR ''.'', One CHR ''~'',
      One CHR ''#'', One CHR ''?'', One CHR ''&'', One CHR ''/'', One CHR ''/'', One CHR ''='']"

text \<open>\<^verbatim>\<open>[a-zA-Z0-9._-]\<close>\<close>

definition handle_class :: "class_item list" where
  "handle_class = [lower, upper, digit09, One CHR ''.'', One CHR ''_'', One CHR ''-'']"

definition phone_prefix_class :: "class_item list" where
  "phone_prefix_class = [One CHR ''0'', One CHR ''1'', One CHR ''2'', One CHR ''5'']"

definition phoneNumbers :: "pattern list" where
  "phoneNumbers =
     [\<lparr>body = seq [WordB, Opt (Lit ''0''), Lit ''1'', Cls phone_prefix_class,
                   Rep [Digit] 8 (Some 8), WordB],
       ignoreCase = False\<rparr>,
      \<lparr>body = seq [WordB, Alt (Seq (Opt (Lit ''+'')) (Lit ''20'')) (Lit ''0020''),
                   Rep [Space] 0 (Some 1), Lit ''1'', Cls phone_prefix_class,
                   Rep [Space] 0 (Some 1), Rep [Digit] 3 (Some 4),
                   Rep [Space] 0 (Some 1), Rep [Digit] 4 (Some 4), WordB],
       ignoreCase = False\<rparr>,
      \<lparr>body = seq [WordB, Rep [Digit] 4 (Some 4), Rep [Space] 0 (Some 1),
                   Rep [Digit] 3 (Some 3), Rep [Space] 0 (Some 1),
                   Rep [Digit] 4 (Some 4), WordB],
       ignoreCase = False\<rparr>]"

definition emails :: pattern where
  "emails =
     \<lparr>body = seq [WordB,
                  Rep [upper, lower, digit09, One CHR ''.'', One CHR ''_'', One CHR ''%'',
                       One CHR ''+'', One CHR ''-''] 1 None,
                  Lit ''@'',
                  Rep [upper, lower, digit09, One CHR ''.'', One CHR ''-''] 1 None,
                  Lit ''.'',
                  Rep [upper, One CHR ''|'', lower] 2 None, WordB],
      ignoreCase = False\<rparr>"

definition urls :: "pattern list" where
  "urls =
     [\<lparr>body = seq [Lit ''http'', Opt (Lit ''s''), Lit ''://'', Opt (Lit ''www.''),
                   Rep url_host_class 1 (Some 256), Lit ''.'', Rep url_tld_class 1 (Some 6),
                   WordB, Rep url_path_class 0 None],
       ignoreCase = False\<rparr>,
      \<lparr>body = seq [WordB, Lit ''www.'',
                   Rep url_host_class 1 (Some 256), Lit ''.'', Rep url_tld_class 1 (Some 6),
                   WordB, Rep url_path_class 0 None],
       ignoreCase = False\<rparr>,
      \<lparr>body = seq [WordB, Rep [lower, upper, digit09, One CHR ''-''] 1 None, Lit ''.'',
                   alts [''com'', ''net'', ''org'', ''info'', ''eg'', ''me'', ''io'', ''co'',
                         ''online'', ''site''],
                   WordB],
       ignoreCase = True\<rparr>]"

definition socialMedia :: "pattern list" where
  "socialMedia =
     [\<lparr>body = seq [Lit ''@'', Rep [lower, upper, digit09, One CHR ''_''] 3 None],
       ignoreCase = False\<rparr>,
      \<lparr>body = seq [WordB,
                   alts [''facebook'', ''fb'', ''whatsapp'', ''wa'', ''telegram'', ''tg'',
                         ''instagram'', ''insta'', ''twitter'', ''tiktok''],
                   Lit ''.com/'', Rep handle_class 1 None],
       ignoreCase = True\<rparr>,
      \<lparr>body = seq [WordB,
                   alts [''facebook'', ''fb'', ''whatsapp'', ''wa'', ''telegram'', ''instagram'',
                         ''insta''],
                   Lit '':'', Rep [Space] 0 (Some 1), Rep handle_class 1 None],
       ignoreCase = True\<rparr>]"

definition contactPrompts :: "pattern list" where
  "contactPrompts =
     [\<lparr>body = seq [WordB,
                   alts [''call'', ''text'', ''message'', ''whatsapp'', ''wa'', ''telegram''],
                   Rep [Space] 1 None, alts [''me'', ''m''], Rep [Space] 1 None,
                   Opt (alts [''on'', ''at'', ''@'']), Rep [Space] 0 None,
                   Rep [One CHR '':''] 0 (Some 1), Rep [Space] 0 None, Rep [Digit] 4 None],
       ignoreCase = True\<rparr>]"

subsection \<open>filterPersonalInfo\<close>

record filter_options =
  replacement :: string
  returnMatches :: bool

definition default_options :: filter_options where
  "default_options = \<lparr>replacement = ''[HIDDEN]'', returnMatches = False\<rparr>"

record filter_state =
  st_filtered :: string
  st_hasFiltered :: bool
  st_matches :: "(string \<times> string list) list"

text \<open>
  One round of the filter: the pattern is looked for in the \<^emph>\<open>original\<close> text, and when
  it is found there, its matches in the text filtered so far are replaced.
\<close>

definition apply_pattern ::
  "filter_options \<Rightarrow> string \<Rightarrow> filter_state \<Rightarrow> string \<times> pattern \<Rightarrow> filter_state" where
  "apply_pattern opts text st kp =
     (let found = match_all (snd kp) text in
      if found \<noteq> []
      then \<lparr>st_filtered = replace_all (snd kp) (replacement opts) (st_filtered st),
            st_hasFiltered = True,
            st_matches = (if returnMatches opts then st_matches st @ [(fst kp, found)]
                          else st_matches st)\<rparr>
      else st)"

text \<open>The key \<^verbatim>\<open>`phone_${index}`\<close> of a match list (the tables hold fewer than ten patterns).\<close>

definition keyed :: "string \<Rightarrow> pattern list \<Rightarrow> (string \<times> pattern) list" where
  "keyed prefix pats =
     map (\<lambda>(i, pat). (prefix @ ''_'' @ [char_of (48 + i)], pat)) (zip [0 ..< length pats] pats)"

text \<open>The patterns in the order in which \<^verbatim>\<open>filterPersonalInfo\<close> applies them.\<close>

definition battery :: "(string \<times> pattern) list" where
  "battery =
     keyed ''phone'' phoneNumbers @ [(''emails'', emails)] @ keyed ''url'' urls
     @ keyed ''social'' socialMedia @ keyed ''contact'' contactPrompts"

record filter_result =
  filtered :: string
  hasFiltered :: bool
  matches :: "(string \<times> string list) list option"

definition filterPersonalInfo_with :: "filter_options \<Rightarrow> string \<Rightarrow> filter_result" where
  "filterPersonalInfo_with opts text =
     (let st = foldl (apply_pattern opts text)
                 \<lparr>st_filtered = text, st_hasFiltered = False, st_matches = []\<rparr> battery
      in \<lparr>filtered = st_filtered st,
          hasFiltered = st_hasFiltered st,
          matches = (if returnMatches opts then Some (st_matches st) else None)\<rparr>)"

definition filterPersonalInfo :: "string \<Rightarrow> filter_result" where
  "filterPersonalInfo text = filterPersonalInfo_with default_options text"

definition containsPersonalInfo :: "string \<Rightarrow> bool" where
  "containsPersonalInfo text =
     hasFiltered (filterPersonalInfo_with (default_options\<lparr>returnMatches := True\<rparr>) text)"

text \<open>Whether a text still holds a match of one of the filter's patterns.\<close>

definition matched_patterns :: "string \<Rightarrow> string list" where
  "matched_patterns s = map fst (filter (\<lambda>kp. match_all (snd kp) s \<noteq> []) battery)"

text \<open>
  The number of opening brackets of a text. With the default replacement every round of
  the filter that replaces something adds one, and none removes one: a text that was
  filtered holds more brackets than the original.
\<close>

abbreviation brackets :: "string \<Rightarrow> nat" where
  "brackets s \<equiv> count_list s CHR ''[''"

definition filter_inv :: "string \<Rightarrow> filter_state \<Rightarrow> bool" where
  "filter_inv text st =
     (if st_hasFiltered st then brackets text < brackets (st_filtered st)
      else st_filtered st = text)"

section \<open>Request validation\<close>

text \<open>
  The \<^verbatim>\<open>trim()\<close> sanitizer of express-validator removes white space (\<^verbatim>\<open>\s\<close>) at
  both ends and writes the result back into the request body; \<^verbatim>\<open>notEmpty()\<close> then
  rejects the empty string.
\<close>

definition trim :: "string \<Rightarrow> string" where
  "trim s = rev (dropWhile is_space (rev (dropWhile is_space s)))"

section \<open>Listing lifecycle\<close>

definition two_days_ms :: int where
  "two_days_ms = 2 * 24 * 60 * 60 * 1000"

text \<open>
  The visibility part of the query object that \<^verbatim>\<open>GET /api/listings\<close>,
  \<^verbatim>\<open>/featured\<close>, \<^verbatim>\<open>/recent\<close> and \<^verbatim>\<open>/:id/similar\<close> all build. A comparison
  of a \<^verbatim>\<open>null\<close> date with \<^verbatim>\<open>$gt\<close> selects nothing.
\<close>

definition visibility_query :: "timestamp \<Rightarrow> listing \<Rightarrow> bool" where
  "visibility_query now l =
     (let twoDaysAgo = now - two_days_ms in
      moderationStatus l = Approved
      \<and> ((status l = Active \<and> isDeleted l \<noteq> True)
         \<or> (isDeleted l = True
            \<and> (case deletedAt l of None \<Rightarrow> False | Some d \<Rightarrow> d > twoDaysAgo))))"

text \<open>The documents the list endpoints select, before their own filters, sort and limit.\<close>

definition find_visible :: "timestamp \<Rightarrow> listing list \<Rightarrow> listing list" where
  "find_visible now ls = filter (visibility_query now) ls"

record delete_info =
  info_isDeleted :: bool
  info_reason :: "string option"
  info_deletedAt :: timestamp

record listing_response =
  shown :: listing
  deleteInfo :: "delete_info option"
  shown_isFavorited :: bool

text \<open>
  \<^verbatim>\<open>GET /api/listings/:id\<close>. \<open>req_user\<close> is the user \<^verbatim>\<open>optionalAuth\<close> attached, if
  any. The result holds the listing the handler saved (the view counter), if it saved
  one, and the response. A soft-deleted document without \<^verbatim>\<open>deletedAt\<close> makes
  \<^verbatim>\<open>listing.deletedAt.getTime()\<close> throw, which the handler answers with 500.
\<close>

definition get_listing ::
  "timestamp \<Rightarrow> user option \<Rightarrow> listing option \<Rightarrow> failure + (listing option \<times> listing_response)" where
  "get_listing now req_user found =
     (case found of
        None \<Rightarrow> Inl (Failure 404 ''Listing not found'')
      | Some l \<Rightarrow>
          if isDeleted l then
            (case deletedAt l of
               None \<Rightarrow> Inl (Failure 500 ''Server error'')
             | Some d \<Rightarrow>
                 (let twoDaysInMs = two_days_ms; timeSinceDeletion = now - d in
                  if timeSinceDeletion > twoDaysInMs
                  then Inl (Failure 404 ''Listing no longer available'')
                  else Inr (None,
                            \<lparr>shown = l\<lparr>status := Sold\<rparr>,
                             deleteInfo = Some \<lparr>info_isDeleted = True,
                                                info_reason = deleteReason l,
                                                info_deletedAt = d\<rparr>,
                             shown_isFavorited = False\<rparr>)))
          else if moderationStatus l \<noteq> Approved
                  \<and> (case req_user of
                        None \<Rightarrow> True
                      | Some u \<Rightarrow> user_id u \<noteq> seller l \<and> \<not> isAdmin u)
          then Inl (Failure 403 ''This listing is pending approval'')
          else
            (let counted = (case req_user of None \<Rightarrow> True | Some u \<Rightarrow> user_id u \<noteq> seller l);
                 l' = (if counted then l\<lparr>views := views l + 1\<rparr> else l);
                 fav = (case req_user of
                          None \<Rightarrow> False
                        | Some u \<Rightarrow> listing_id l \<in> set (favorites u))
             in Inr (if counted then Some l' else None,
                     \<lparr>shown = l', deleteInfo = None, shown_isFavorited = fav\<rparr>)))"

text \<open>The retention sweeper: the listings that remain after \<^verbatim>\<open>cleanupDeletedListings\<close>.\<close>

definition cleanupDeletedListings :: "timestamp \<Rightarrow> listing list \<Rightarrow> listing list" where
  "cleanupDeletedListings now ls =
     (let twoDaysAgo = now - two_days_ms in
      filter (\<lambda>l. \<not> (isDeleted l = True
                     \<and> (case deletedAt l of None \<Rightarrow> False | Some d \<Rightarrow> d \<le> twoDaysAgo))) ls)"

definition delete_reasons :: "string list" where
  "delete_reasons =
     [''Item Sold'', ''No Longer Available'', ''Posted by Mistake'', ''Price Changed'',
      ''Found Better Buyer'', ''Item Damaged'', ''Other'']"

text \<open>
  \<^verbatim>\<open>DELETE /api/listings/:id\<close>, the soft delete. A reason outside the schema's enum
  fails the save, which the handler answers with 500.
\<close>

definition soft_delete ::
  "timestamp \<Rightarrow> user \<Rightarrow> string \<Rightarrow> listing option \<Rightarrow> failure + listing" where
  "soft_delete now u reason found =
     (if reason = [] then Inl (ValidationFailed 400 None [''Please select a reason for deletion''])
      else case found of
        None \<Rightarrow> Inl (Failure 404 ''Listing not found'')
      | Some l \<Rightarrow>
          if seller l \<noteq> user_id u then Inl (Failure 403 ''Not authorized to delete this listing'')
          else if reason \<notin> set delete_reasons then Inl (Failure 500 ''Server error'')
          else Inr (l\<lparr>isDeleted := True, deletedAt := Some now, deleteReason := Some reason,
                      status := Sold\<rparr>))"

subsection \<open>The statement of the specification\<close>

text \<open>
  The visibility predicate as the specification words it: approved, and either active
  and not deleted, or deleted with \<open>now - deletedAt\<close> at most two days.
\<close>

definition spec_isPubliclyVisible :: "timestamp \<Rightarrow> listing \<Rightarrow> bool" where
  "spec_isPubliclyVisible now l =
     (moderationStatus l = Approved
      \<and> ((status l = Active \<and> \<not> isDeleted l)
         \<or> (isDeleted l
            \<and> (case deletedAt l of None \<Rightarrow> False | Some d \<Rightarrow> now - d \<le> two_days_ms))))"

subsection \<open>Reports\<close>

text \<open>\<^verbatim>\<open>POST /api/listings/:id/report\<close>; the result is the saved listing.\<close>

definition report_listing ::
  "timestamp \<Rightarrow> user \<Rightarrow> string \<Rightarrow> listing option \<Rightarrow> failure + listing" where
  "report_listing now u reason found =
     (let reason' = trim reason in
      if reason' = [] then Inl (ValidationFailed 400 None [''Reason is required''])
      else case found of
        None \<Rightarrow> Inl (Failure 404 ''Listing not found'')
      | Some l \<Rightarrow>
          (let alreadyReported = list_ex (\<lambda>r. report_user r = user_id u) (reports l) in
           if alreadyReported
           then Inl (Failure 400 ''You have already reported this listing'')
           else
             (let l1 = l\<lparr>reports := reports l
                          @ [\<lparr>report_user = user_id u, report_reason = reason',
                               report_createdAt = now\<rparr>]\<rparr>;
                  l2 = (if length (reports l1) \<ge> 3
                        then l1\<lparr>moderationStatus := ModerationPending\<rparr> else l1)
              in Inr l2)))"

text \<open>
  A sequence of report requests on one listing, one per user; a rejected request leaves
  the stored listing as it is.
\<close>

fun after_reports :: "timestamp \<Rightarrow> string \<Rightarrow> listing \<Rightarrow> user list \<Rightarrow> listing" where
  "after_reports now reason l [] = l"
| "after_reports now reason l (u # us) =
     (case report_listing now u reason (Some l) of
        Inl e \<Rightarrow> after_reports now reason l us
      | Inr l' \<Rightarrow> after_reports now reason l' us)"

subsection \<open>Creating a listing\<close>

text \<open>\<^verbatim>\<open>verifiedOnly\<close>: \<open>None\<close> stands for \<^verbatim>\<open>next()\<close>.\<close>

definition verifiedOnly :: "user option \<Rightarrow> failure option" where
  "verifiedOnly req_user =
     (if (case req_user of
            None \<Rightarrow> True
          | Some u \<Rightarrow> verification_status (verification u) \<noteq> VerificationApproved)
      then Some (VerificationRequired 403 ''Identity verification required'')
      else None)"

text \<open>
  The body of a create request. \<open>body_price\<close> is the number the field denotes, \<open>None\<close>
  when \<^verbatim>\<open>isNumeric()\<close> rejects it (prices are whole numbers in this model).
  \<open>body_location\<close> is the location after \<^verbatim>\<open>JSON.parse\<close>: missing, unparsable (with
  the parser's message), or an object with an area and possibly a city.
\<close>

datatype location_field = LocationMissing | LocationUnparsable string | Location string "string option"

record listing_body =
  body_title :: string
  body_description :: string
  body_price :: "int option"
  body_category :: string
  body_condition :: string
  body_location :: location_field

definition categories :: "string list" where
  "categories =
     [''Furniture'', ''Electronics'', ''Books'', ''Kitchen'', ''Clothing'', ''Sports'', ''Toys'',
      ''Other'']"

definition conditions :: "string list" where
  "conditions = [''New'', ''Like New'', ''Good'', ''Fair'']"

definition areas :: "string list" where
  "areas =
     [''Maadi'', ''New Cairo'', ''Zamalek'', ''Downtown'', ''Heliopolis'', ''Nasr City'',
      ''Sheikh Zayed'', ''6th of October'', ''Giza'', ''Mohandessin'', ''Dokki'', ''Tagamoa'',
      ''Rehab'', ''Madinet Nasr'', ''El Mokattam'', ''Ain Shams'', ''Shubra'', ''Other'']"

text \<open>The express-validator chain of \<^verbatim>\<open>POST /api/listings\<close>: the error messages.\<close>

definition create_validation :: "listing_body \<Rightarrow> string list" where
  "create_validation b =
     (if trim (body_title b) = [] then [''Title is required''] else [])
     @ (if trim (body_description b) = [] then [''Description is required''] else [])
     @ (if body_price b = None then [''Valid price is required''] else [])
     @ (if body_category b = [] then [''Category is required''] else [])
     @ (if body_condition b = [] then [''Condition is required''] else [])
     @ (if body_location b = LocationMissing then [''Location is required''] else [])"

text \<open>The paths of the Listing schema that a new document fails to validate.\<close>

definition schema_errors :: "listing \<Rightarrow> string list" where
  "schema_errors l =
     (if title l = [] \<or> length (title l) > 100 then [''title''] else [])
     @ (if description l = [] \<or> length (description l) > 2000 then [''description''] else [])
     @ (if price l < 1 then [''price''] else [])
     @ (if category l \<notin> set categories then [''category''] else [])
     @ (if condition l \<notin> set conditions then [''condition''] else [])
     @ (if location_area l \<notin> set areas then [''location.area''] else [])"

text \<open>
  \<^verbatim>\<open>Listing.create\<close> with the fields the handler passes; every other path takes
  its schema default.
\<close>

definition new_listing ::
  "object_id \<Rightarrow> timestamp \<Rightarrow> object_id \<Rightarrow> string \<Rightarrow> string \<Rightarrow> int \<Rightarrow> string \<Rightarrow> string
     \<Rightarrow> string \<Rightarrow> string option \<Rightarrow> image list \<Rightarrow> listing" where
  "new_listing new_id now seller_id t d p cat cond area city imgs =
     \<lparr>listing_id = new_id, title = trim t, description = d, price = p, category = cat,
      condition = cond, images = imgs, location_area = area,
      location_city = (case city of None \<Rightarrow> ''Cairo'' | Some c \<Rightarrow> c),
      seller = seller_id, createdAt = now, status = Active, featured = False, views = 0,
      favoritesCount = 0, reports = [], moderationStatus = ModerationPending,
      moderationNote = None, isDeleted = False, deletedAt = None, deleteReason = None\<rparr>"

text \<open>The handler of \<^verbatim>\<open>POST /api/listings\<close>, behind \<^verbatim>\<open>protect\<close> and \<^verbatim>\<open>verifiedOnly\<close>.\<close>

definition create_listing_handler ::
  "object_id \<Rightarrow> timestamp \<Rightarrow> user \<Rightarrow> listing_body \<Rightarrow> string list \<Rightarrow> failure + listing" where
  "create_listing_handler new_id now u b files =
     (let errors = create_validation b in
      if errors \<noteq> [] then Inl (ValidationFailed 400 (Some ''Validation failed'') errors)
      else
        (let imgs = map (\<lambda>f. \<lparr>url = ''/uploads/'' @ f, filename = f\<rparr>) files in
         case body_location b of
           LocationUnparsable msg \<Rightarrow> Inl (Failure 500 (if msg = [] then ''Server error'' else msg))
         | LocationMissing \<Rightarrow> Inl (ValidationFailed 400 (Some ''Validation error'') [''location.area''])
         | Location area city \<Rightarrow>
             (case body_price b of
                None \<Rightarrow> Inl (ValidationFailed 400 (Some ''Validation failed'') errors)
              | Some p \<Rightarrow>
                  (let l = new_listing new_id now (user_id u) (trim (body_title b))
                             (trim (body_description b)) p (body_category b)
                             (body_condition b) area city imgs;
                       invalid = schema_errors l
                   in if invalid \<noteq> []
                      then Inl (ValidationFailed 400 (Some ''Validation error'') invalid)
                      else Inr l))))"

definition post_listing ::
  "object_id \<Rightarrow> timestamp \<Rightarrow> user \<Rightarrow> listing_body \<Rightarrow> string list \<Rightarrow> failure + listing" where
  "post_listing new_id now u b files =
     (case verifiedOnly (Some u) of
        Some f \<Rightarrow> Inl f
      | None \<Rightarrow> create_listing_handler new_id now u b files)"

section \<open>Notifications and email\<close>

text \<open>
  The email dispatcher is an external collaborator: an email handed to it is recorded,
  and \<open>dispatch\<close> tells whether the call returned (\<open>True\<close>) or threw. An error a
  handler catches is written to the console.
\<close>

datatype mail =
    VerificationApprovedMail string string
  | VerificationRejectedMail string string string
  | ListingApprovedMail string string string
  | ListingRejectedMail string string string "string option"

text \<open>
  \<^verbatim>\<open>$push\<close> with \<^verbatim>\<open>$each\<close> and \<^verbatim>\<open>$slice: -50\<close>: append, then keep the last fifty
  elements.
\<close>

definition push_slice :: "'a list \<Rightarrow> 'a list \<Rightarrow> nat \<Rightarrow> 'a list" where
  "push_slice xs each n = (let ys = xs @ each in drop (length ys - n) ys)"

section \<open>Identity verification\<close>

definition document_types :: "string list" where
  "document_types = [''passport'', ''student_card'', ''residential_card'']"

text \<open>\<^verbatim>\<open>String.prototype.replace\<close> with string arguments: the first occurrence only.\<close>

fun replace_first :: "char \<Rightarrow> string \<Rightarrow> string \<Rightarrow> string" where
  "replace_first a b [] = []"
| "replace_first a b (c # cs) = (if c = a then b @ cs else c # replace_first a b cs)"

record upload =
  upload_filename :: string
  dataUrl :: "string option"

text \<open>Passport: exactly one image; student card and residential card: front and back.\<close>

definition requiredCount :: "string \<Rightarrow> nat" where
  "requiredCount docType = (if docType = ''passport'' then 1 else 2)"

text \<open>
  \<^verbatim>\<open>POST /api/verification/submit\<close>. \<open>u\<close> is the document of the requesting user,
  \<open>files\<close> the uploaded files; the result is the saved user. (A request without the
  \<^verbatim>\<open>documentType\<close> field behaves as one with a type outside the list.)
\<close>

definition submit_verification ::
  "timestamp \<Rightarrow> user \<Rightarrow> string \<Rightarrow> upload list \<Rightarrow> failure + user" where
  "submit_verification now u docType files =
     (if docType \<notin> set document_types then Inl (Failure 400 ''Invalid document type'')
      else if length files = 0 then Inl (Failure 400 ''Please upload document images'')
      else
        (if length files \<noteq> requiredCount docType
         then Inl (Failure 400
                (if docType = ''passport'' then ''Passport requires exactly 1 image''
                 else replace_first CHR ''_'' '' '' docType @ '' requires 2 images (front and back)''))
         else if verification_status (verification u) = VerificationApproved
         then Inl (Failure 400 ''Already verified'')
         else if verification_status (verification u) = VerificationPending
         then Inl (Failure 400 ''Verification already pending review'')
         else
           (let documentImages =
                  map (\<lambda>f. \<lparr>url = (case dataUrl f of
                                      Some d \<Rightarrow> d
                                    | None \<Rightarrow> ''/uploads/'' @ upload_filename f),
                             filename = upload_filename f\<rparr>) files
            in Inr (u\<lparr>verification :=
                        \<lparr>verification_status = VerificationPending,
                         documentType = Some docType,
                         documentImages = documentImages,
                         submittedAt = Some now,
                         reviewedAt = None,
                         reviewedBy = None,
                         rejectionReason = None\<rparr>\<rparr>))))"

record review_outcome =
  reviewed_user :: user
  review_mail :: mail
  review_console :: "string list"
  review_message :: string

text \<open>
  \<^verbatim>\<open>PUT /api/admin/verifications/:userId/review\<close>, behind \<^verbatim>\<open>protect\<close> and
  \<^verbatim>\<open>adminOnly\<close>. \<open>admin\<close> is the requesting user, \<open>found\<close> the user the id
  names, \<open>reason\<close> the optional body field; \<^verbatim>\<open>!reason\<close> holds for a missing and for
  an empty reason.
\<close>

definition adminOnly :: "user option \<Rightarrow> failure option" where
  "adminOnly req_user =
     (if (case req_user of None \<Rightarrow> True | Some u \<Rightarrow> \<not> isAdmin u)
      then Some (Failure 403 ''Access denied. Admin only.'') else None)"

definition review_verification ::
  "timestamp \<Rightarrow> (mail \<Rightarrow> bool) \<Rightarrow> user \<Rightarrow> string \<Rightarrow> string option \<Rightarrow> user option
     \<Rightarrow> failure + review_outcome" where
  "review_verification now dispatch admin action reason found =
     (if action \<notin> set [''approve'', ''reject'']
      then Inl (Failure 400 ''Invalid action. Use approve or reject'')
      else if action = ''reject'' \<and> (reason = None \<or> reason = Some [])
      then Inl (Failure 400 ''Rejection reason is required'')
      else case found of
        None \<Rightarrow> Inl (Failure 404 ''User not found'')
      | Some u \<Rightarrow>
          if verification_status (verification u) \<noteq> VerificationPending
          then Inl (Failure 400 ''No pending verification for this user'')
          else
            (let reason_text = (case reason of None \<Rightarrow> ''undefined'' | Some r \<Rightarrow> r);
                 v1 = (verification u)
                        \<lparr>verification_status :=
                           (if action = ''approve'' then VerificationApproved
                            else VerificationRejected),
                         reviewedAt := Some now,
                         reviewedBy := Some (user_id admin)\<rparr>;
                 v2 = (if action = ''reject'' then v1\<lparr>rejectionReason := reason\<rparr> else v1);
                 notification =
                   \<lparr>notification_type = NSystem,
                    notification_title =
                      (if action = ''approve'' then ''Identity Verified!''
                       else ''Verification Rejected''),
                    notification_content =
                      (if action = ''approve''
                       then ''Your identity has been verified. You can now post listings!''
                       else ''Your verification was rejected: '' @ reason_text
                            @ ''. You can resubmit with new documents.''),
                    notification_read = False,
                    relatedId = None,
                    notification_createdAt = now\<rparr>;
                 u' = u\<lparr>verification := v2, notifications := notifications u @ [notification]\<rparr>;
                 m = (if action = ''approve'' then VerificationApprovedMail (email u') (name u')
                      else VerificationRejectedMail (email u') (name u') reason_text)
             in Inr \<lparr>reviewed_user = u',
                     review_mail = m,
                     review_console =
                       (if dispatch m then [] else [''Failed to send verification email'']),
                     review_message = ''Verification '' @ action @ ''d successfully''\<rparr>))"

text \<open>What a review stores and answers: everything but the console.\<close>

definition review_effect :: "failure + review_outcome \<Rightarrow> failure + (user \<times> mail \<times> string)" where
  "review_effect res =
     (case res of
        Inl e \<Rightarrow> Inl e
      | Inr out \<Rightarrow> Inr (reviewed_user out, review_mail out, review_message out))"

section \<open>Listing moderation\<close>

record moderation_outcome =
  moderated_listing :: listing
  notified_seller :: "user option"
  moderation_mail :: "mail option"
  moderation_console :: "string list"
  moderation_message :: string

text \<open>
  \<^verbatim>\<open>PUT /api/admin/listings/:id/moderate\<close>. \<open>users\<close> is the users collection, in
  which the handler looks the seller up after it has saved the listing.
\<close>

definition moderate_listing ::
  "timestamp \<Rightarrow> (mail \<Rightarrow> bool) \<Rightarrow> (object_id \<Rightarrow> user option) \<Rightarrow> string \<Rightarrow> string option
     \<Rightarrow> listing option \<Rightarrow> failure + moderation_outcome" where
  "moderate_listing now dispatch users action note found =
     (if action \<notin> set [''approve'', ''reject'']
      then Inl (Failure 400 ''Invalid action. Use approve or reject'')
      else case found of
        None \<Rightarrow> Inl (Failure 404 ''Listing not found'')
      | Some l \<Rightarrow>
          (let note_text = (case note of None \<Rightarrow> [] | Some n \<Rightarrow> n);
               l1 = l\<lparr>moderationStatus := (if action = ''approve'' then Approved else Rejected),
                      moderationNote := Some note_text\<rparr>;
               l2 = (if action = ''reject'' then l1\<lparr>status := Removed\<rparr> else l1);
               message = ''Listing '' @ action @ ''d successfully''
           in case users (seller l2) of
                None \<Rightarrow>
                  Inr \<lparr>moderated_listing = l2, notified_seller = None, moderation_mail = None,
                       moderation_console = [], moderation_message = message\<rparr>
              | Some s \<Rightarrow>
                  (let n = \<lparr>notification_type = NListing,
                            notification_title =
                              (if action = ''approve'' then ''Listing Approved!''
                               else ''Listing Rejected''),
                            notification_content =
                              (if action = ''approve''
                               then ''Your listing '' @ [CHR 0x22] @ title l2 @ [CHR 0x22]
                                    @ '' has been approved and is now live!''
                               else ''Your listing '' @ [CHR 0x22] @ title l2 @ [CHR 0x22]
                                    @ '' was rejected. Reason: ''
                                    @ (if note_text = [] then ''Policy violation''
                                       else note_text)),
                            notification_read = False,
                            relatedId = Some (listing_id l2),
                            notification_createdAt = now\<rparr>;
                       s' = s\<lparr>notifications := notifications s @ [n]\<rparr>;
                       m = (if action = ''approve''
                            then ListingApprovedMail (email s') (name s') (title l2)
                            else ListingRejectedMail (email s') (name s') (title l2) note)
                   in Inr \<lparr>moderated_listing = l2, notified_seller = Some s',
                           moderation_mail = Some m,
                           moderation_console =
                             (if dispatch m then []
                              else [''Failed to send listing moderation notification'']),
                           moderation_message = message\<rparr>)))"

section \<open>Conversations and messages\<close>

record message =
  message_id :: object_id
  message_conversation :: object_id
  sender :: object_id
  content :: string
  originalContent :: "string option"
  isFiltered :: bool
  message_type :: string
  read :: bool
  readAt :: "timestamp option"
  message_createdAt :: timestamp

record last_message =
  last_content :: string
  last_sender :: object_id
  last_createdAt :: timestamp

record conversation =
  conversation_id :: object_id
  participants :: "object_id list"
  conversation_listing :: object_id
  lastMessage :: "last_message option"
  unreadCount :: "object_id \<Rightarrow> int option"
  conversation_isActive :: bool

definition message_types :: "string list" where
  "message_types = [''text'', ''image'', ''system'']"

text \<open>
  What a request to \<^verbatim>\<open>POST /api/messages/:conversationId\<close> leaves behind: the
  message \<^verbatim>\<open>Message.create\<close> stored, the conversation \<^verbatim>\<open>conversation.save()\<close>
  stored, the payload of the \<^verbatim>\<open>newMessage\<close> event that \<^verbatim>\<open>io.emit\<close> sends to the
  connected clients, the users collection after the notification update, and the
  response. The document that \<^verbatim>\<open>Message.create\<close> returns holds every path that was
  set; it is this document that the handler emits and answers with.
\<close>

record send_outcome =
  created_message :: "message option"
  saved_conversation :: "conversation option"
  emitted :: "message option"
  users_after :: "object_id \<Rightarrow> user option"
  send_response :: "failure + message"

definition rejected :: "(object_id \<Rightarrow> user option) \<Rightarrow> failure \<Rightarrow> send_outcome" where
  "rejected users f =
     \<lparr>created_message = None, saved_conversation = None, emitted = None,
      users_after = users, send_response = Inl f\<rparr>"

text \<open>
  The handler. \<open>raw\<close> is the \<^verbatim>\<open>content\<close> field of the request; the validator chain
  trims it in place, so \<open>body_content\<close> is what the handler reads from the body.
  \<open>mtype\<close> is the optional \<^verbatim>\<open>type\<close> field. A message that fails the schema
  (\<^verbatim>\<open>required\<close>, \<^verbatim>\<open>maxlength\<close>, the \<^verbatim>\<open>enum\<close> of the type) makes
  \<^verbatim>\<open>Message.create\<close> throw; a conversation without another participant makes
  \<^verbatim>\<open>otherParticipant.toString()\<close> throw after the message is stored.
\<close>

definition send_message ::
  "object_id \<Rightarrow> timestamp \<Rightarrow> (object_id \<Rightarrow> user option) \<Rightarrow> user \<Rightarrow> string \<Rightarrow> string option
     \<Rightarrow> conversation option \<Rightarrow> send_outcome" where
  "send_message new_id now users u raw mtype found =
     (let body_content = trim raw in
      if body_content = [] then rejected users (ValidationFailed 400 None [''Message content is required''])
      else case found of
        None \<Rightarrow> rejected users (Failure 404 ''Conversation not found'')
      | Some conv \<Rightarrow>
          if user_id u \<notin> set (participants conv) then rejected users (Failure 403 ''Not authorized'')
          else
            (let type = (case mtype of None \<Rightarrow> ''text'' | Some t \<Rightarrow> t);
                 filterResult = filterPersonalInfo body_content;
                 m = \<lparr>message_id = new_id,
                      message_conversation = conversation_id conv,
                      sender = user_id u,
                      content = filtered filterResult,
                      originalContent =
                        (if hasFiltered filterResult then Some body_content else None),
                      isFiltered = hasFiltered filterResult,
                      message_type = type,
                      read = False,
                      readAt = None,
                      message_createdAt = now\<rparr>
             in if content m = [] \<or> length (content m) > 1000 \<or> type \<notin> set message_types
                then rejected users (Failure 500 ''Server error'')
                else
                  (let conv1 = conv\<lparr>lastMessage :=
                                  Some \<lparr>last_content = body_content, last_sender = user_id u,
                                        last_createdAt = now\<rparr>\<rparr>
                   in case find (\<lambda>p. p \<noteq> user_id u) (participants conv) of
                        None \<Rightarrow>
                          \<lparr>created_message = Some m, saved_conversation = None,
                           emitted = None, users_after = users,
                           send_response = Inl (Failure 500 ''Server error'')\<rparr>
                      | Some otherParticipant \<Rightarrow>
                          (let currentUnread =
                                 (case unreadCount conv1 otherParticipant of
                                    None \<Rightarrow> 0
                                  | Some n \<Rightarrow> n);
                               conv2 = conv1\<lparr>unreadCount :=
                                         (unreadCount conv1)(otherParticipant \<mapsto> currentUnread + 1)\<rparr>;
                               n = \<lparr>notification_type = NMessage,
                                    notification_title = ''New Message'',
                                    notification_content = name u @ '' sent you a message'',
                                    notification_read = False,
                                    relatedId = Some (conversation_id conv),
                                    notification_createdAt = now\<rparr>;
                               users' =
                                 (case users otherParticipant of
                                    None \<Rightarrow> users
                                  | Some r \<Rightarrow>
                                      users(otherParticipant \<mapsto>
                                        r\<lparr>notifications := push_slice (notifications r) [n] 50\<rparr>))
                           in \<lparr>created_message = Some m, saved_conversation = Some conv2,
                               emitted = Some m, users_after = users',
                               send_response = Inr m\<rparr>))))"

text \<open>
  A query on messages does not select \<^verbatim>\<open>originalContent\<close> (\<^verbatim>\<open>select: false\<close>)
  unless it asks for it.
\<close>

definition select_default :: "message \<Rightarrow> message" where
  "select_default m = m\<lparr>originalContent := None\<rparr>"

record conversation_view =
  view_conversation :: conversation
  view_unreadCount :: int
  view_otherParticipant :: "object_id option"

text \<open>\<^verbatim>\<open>GET /api/messages/conversations\<close>: the active conversations of the user.\<close>

definition get_conversations :: "user \<Rightarrow> conversation list \<Rightarrow> conversation_view list" where
  "get_conversations u convs =
     map (\<lambda>conv.
            \<lparr>view_conversation = conv,
             view_unreadCount = (case unreadCount conv (user_id u) of None \<Rightarrow> 0 | Some n \<Rightarrow> n),
             view_otherParticipant = find (\<lambda>p. p \<noteq> user_id u) (participants conv)\<rparr>)
         (filter (\<lambda>conv. user_id u \<in> set (participants conv) \<and> conversation_isActive conv) convs)"

record thread_view =
  thread_conversation :: conversation
  thread_messages :: "message list"

text \<open>
  \<^verbatim>\<open>GET /api/messages/conversations/:id\<close>: the stored messages with the unread ones
  marked read, the saved conversation, and the response (the conversation and the
  messages as they were read, oldest first).
\<close>

definition open_conversation ::
  "timestamp \<Rightarrow> user \<Rightarrow> conversation option \<Rightarrow> message list
     \<Rightarrow> failure + (message list \<times> conversation \<times> thread_view)" where
  "open_conversation now u found stored =
     (case found of
        None \<Rightarrow> Inl (Failure 404 ''Conversation not found'')
      | Some conv \<Rightarrow>
          if user_id u \<notin> set (participants conv) then Inl (Failure 403 ''Not authorized'')
          else
            (let messages =
                   map select_default
                     (sort_key message_createdAt
                        (filter (\<lambda>m. message_conversation m = conversation_id conv) stored));
                 stored' =
                   map (\<lambda>m. if message_conversation m = conversation_id conv
                                \<and> sender m \<noteq> user_id u \<and> read m = False
                             then m\<lparr>read := True, readAt := Some now\<rparr> else m) stored;
                 conv' = conv\<lparr>unreadCount := (unreadCount conv)(user_id u \<mapsto> 0)\<rparr>
             in Inr (stored', conv',
                     \<lparr>thread_conversation = conv', thread_messages = messages\<rparr>)))"

record original_view =
  original_shown_content :: string
  original_shown_originalContent :: string
  original_shown_isFiltered :: bool

text \<open>\<^verbatim>\<open>GET /api/messages/:messageId/original\<close>, which selects \<^verbatim>\<open>+originalContent\<close>.\<close>

definition get_original :: "user \<Rightarrow> message option \<Rightarrow> failure + original_view" where
  "get_original u found =
     (if \<not> isAdmin u then Inl (Failure 403 ''Not authorized - Admin access required'')
      else case found of
        None \<Rightarrow> Inl (Failure 404 ''Message not found'')
      | Some m \<Rightarrow>
          Inr \<lparr>original_shown_content = content m,
               original_shown_originalContent =
                 (case originalContent m of
                    None \<Rightarrow> content m
                  | Some orig \<Rightarrow> if orig = [] then content m else orig),
               original_shown_isFiltered = isFiltered m\<rparr>)"

subsection \<open>Example conversation\<close>

definition chat :: conversation where
  "chat =
     \<lparr>conversation_id = 20, participants = [2, 1], conversation_listing = 7,
      lastMessage = None, unreadCount = Map.empty, conversation_isActive = True\<rparr>"

definition two_users :: "object_id \<Rightarrow> user option" where
  "two_users = [1 \<mapsto> new_user 1 ''sara'', 2 \<mapsto> new_user 2 ''bob'']"

section \<open>Properties of the favorite toggle\<close>

lemma indexOf_ge: "- 1 \<le> indexOf xs x"
  by (induction xs) (auto simp: Let_def)

lemma indexOf_absent: "indexOf xs x = - 1 \<longleftrightarrow> x \<notin> set xs"
proof (induction xs)
  case Nil
  then show ?case by simp
next
  case (Cons y ys)
  have "- 1 \<le> indexOf ys x" by (rule indexOf_ge)
  with Cons show ?case by (auto simp: Let_def)
qed

lemma indexOf_present: "indexOf xs x > - 1 \<longleftrightarrow> x \<in> set xs"
  using indexOf_ge [of xs x] indexOf_absent [of xs x] by linarith

lemma toggle_favorite_Some:
  "toggle_favorite u (Some l) =
     (if listing_id l \<in> set (favorites u)
      then Inr (u\<lparr>favorites := splice1 (indexOf (favorites u) (listing_id l)) (favorites u)\<rparr>,
                l\<lparr>favoritesCount := max 0 (favoritesCount l - 1)\<rparr>,
                \<lparr>isFavorited = False,
                 response_favoritesCount = max 0 (favoritesCount l - 1)\<rparr>)
      else Inr (u\<lparr>favorites := favorites u @ [listing_id l]\<rparr>,
                l\<lparr>favoritesCount := favoritesCount l + 1\<rparr>,
                \<lparr>isFavorited = True, response_favoritesCount = favoritesCount l + 1\<rparr>))"
  using indexOf_present [of "favorites u" "listing_id l"]
        indexOf_absent [of "favorites u" "listing_id l"]
  by (simp add: toggle_favorite_def Let_def)

lemma toggle_keeps_nonnegative:
  assumes "toggle_favorite u (Some l) = Inr (u', l', r)" and "0 \<le> favoritesCount l"
  shows "0 \<le> favoritesCount l'"
  using assms by (auto simp: toggle_favorite_Some split: if_splits)

lemma after_toggles_nonnegative:
  "0 \<le> favoritesCount l \<Longrightarrow> 0 \<le> favoritesCount (after_toggles l us)"
proof (induction us arbitrary: l)
  case Nil
  then show ?case by simp
next
  case (Cons u us)
  show ?case
  proof (cases "toggle_favorite u (Some l)")
    case (Inl e)
    with Cons show ?thesis by simp
  next
    case (Inr t)
    obtain u' l' r where t: "t = (u', l', r)" by (cases t)
    with Inr Cons.prems have "0 \<le> favoritesCount l'"
      using toggle_keeps_nonnegative by blast
    with Cons.IH Inr t show ?thesis by simp
  qed
qed

text \<open>
  C10. The favorites counter is never negative after a toggle: the un-favorite branch
  yields \<open>max 0 (count - 1)\<close>, which is at least 0 whatever the stored count was and
  stays 0 when the stored count is already 0; the favorite branch adds one; hence a
  counter that starts at its default 0 (or at any non-negative value) is non-negative
  after every toggle and after every sequence of toggles by any users.
\<close>

theorem C10_favoritesCount_never_negative:
  "(listing_id l \<in> set (favorites u) \<longrightarrow>
      (\<exists>u' l' r. toggle_favorite u (Some l) = Inr (u', l', r)
         \<and> favoritesCount l' = max 0 (favoritesCount l - 1)
         \<and> 0 \<le> favoritesCount l'
         \<and> (favoritesCount l = 0 \<longrightarrow> favoritesCount l' = 0)))
   \<and> (listing_id l \<notin> set (favorites u) \<longrightarrow>
      (\<exists>u' l' r. toggle_favorite u (Some l) = Inr (u', l', r)
         \<and> favoritesCount l' = favoritesCount l + 1))
   \<and> (0 \<le> favoritesCount l \<longrightarrow> 0 \<le> favoritesCount (after_toggles l us))"
proof (intro conjI impI)
  assume "listing_id l \<in> set (favorites u)"
  then show "\<exists>u' l' r. toggle_favorite u (Some l) = Inr (u', l', r)
         \<and> favoritesCount l' = max 0 (favoritesCount l - 1)
         \<and> 0 \<le> favoritesCount l'
         \<and> (favoritesCount l = 0 \<longrightarrow> favoritesCount l' = 0)"
    by (simp add: toggle_favorite_Some)
next
  assume "listing_id l \<notin> set (favorites u)"
  then show "\<exists>u' l' r. toggle_favorite u (Some l) = Inr (u', l', r)
         \<and> favoritesCount l' = favoritesCount l + 1"
    by (simp add: toggle_favorite_Some)
next
  assume "0 \<le> favoritesCount l"
  then show "0 \<le> favoritesCount (after_toggles l us)"
    by (rule after_toggles_nonnegative)
qed

theorem C10_favoritesCount_never_negative_witness:
  "listing_id lamp \<in> set (favorites ((new_user 2 ''bob'')\<lparr>favorites := [7]\<rparr>))
   \<and> favoritesCount lamp = 0
   \<and> (\<exists>u' l' r. toggle_favorite ((new_user 2 ''bob'')\<lparr>favorites := [7]\<rparr>) (Some lamp)
                    = Inr (u', l', r) \<and> favoritesCount l' = 0)
   \<and> 0 \<le> favoritesCount (after_toggles lamp [new_user 2 ''bob'', new_user 3 ''eve''])"
proof -
  have a: "listing_id lamp \<in> set (favorites ((new_user 2 ''bob'')\<lparr>favorites := [7]\<rparr>))"
    by (simp add: lamp_def)
  have b: "favoritesCount lamp = 0"
    by (simp add: lamp_def)
  from C10_favoritesCount_never_negative
         [of lamp "(new_user 2 ''bob'')\<lparr>favorites := [7]\<rparr>"
             "[new_user 2 ''bob'', new_user 3 ''eve'']"] a b
  show ?thesis by auto
qed

lemma splice1_indexOf: "x \<in> set xs \<Longrightarrow> splice1 (indexOf xs x) xs = remove1 x xs"
proof (induction xs)
  case Nil
  then show ?case by simp
next
  case (Cons y ys)
  show ?case
  proof (cases "y = x")
    case True
    then show ?thesis by (simp add: splice1_def)
  next
    case False
    with Cons.prems have mem: "x \<in> set ys" by simp
    then have pos: "0 \<le> indexOf ys x"
      using indexOf_present [of ys x] by linarith
    then have "nat (indexOf ys x + 1) = Suc (nat (indexOf ys x))" by linarith
    moreover have "indexOf ys x \<noteq> - 1" using pos by linarith
    ultimately show ?thesis
      using False Cons.IH [OF mem] by (simp add: splice1_def Let_def)
  qed
qed

lemma remove1_appended: "x \<notin> set xs \<Longrightarrow> remove1 x (xs @ [x]) = xs"
  by (induction xs) auto

lemma insert_remove1: "x \<in> set xs \<Longrightarrow> insert x (set (remove1 x xs)) = set xs"
  by (induction xs) auto

lemma single_occurrence_removed: "count_list xs x \<le> 1 \<Longrightarrow> x \<notin> set (remove1 x xs)"
proof (induction xs)
  case Nil
  then show ?case by simp
next
  case (Cons y ys)
  show ?case
  proof (cases "y = x")
    case True
    with Cons.prems have "count_list ys x = 0" by simp
    then have "x \<notin> set ys" by (simp add: count_list_0_iff)
    with True show ?thesis by simp
  next
    case False
    with Cons show ?thesis by simp
  qed
qed

text \<open>
  C8, as the code has it. The claim holds for the states in which the user's favorites
  and the listing's counter are in sync: the listing occurs at most once among the
  favorites, and the counter is at least 1 when the user holds the listing as a favorite
  (at least 0 otherwise). Then the first toggle adds the listing exactly when it
  increments the counter and removes it exactly when it decrements the counter, and the
  second toggle restores the listing document, the set of favorites and every other
  field of the user.
\<close>

theorem C8_toggle_twice:
  assumes once: "count_list (favorites u) (listing_id l) \<le> 1"
      and synced: "if listing_id l \<in> set (favorites u) then 1 \<le> favoritesCount l
                   else 0 \<le> favoritesCount l"
  shows "\<exists>u1 l1 r1 u2 l2 r2.
           toggle_favorite u (Some l) = Inr (u1, l1, r1)
         \<and> toggle_favorite u1 (Some l1) = Inr (u2, l2, r2)
         \<and> toggle_twice u l = Inr (u2, l2, r2)
         \<and> set (favorites u2) = set (favorites u)
         \<and> favoritesCount l2 = favoritesCount l
         \<and> l2 = l
         \<and> u2 = u\<lparr>favorites := favorites u2\<rparr>
         \<and> (listing_id l \<in> set (favorites u1) \<longleftrightarrow> listing_id l \<notin> set (favorites u))
         \<and> (listing_id l \<in> set (favorites u1) \<longleftrightarrow> favoritesCount l1 = favoritesCount l + 1)
         \<and> (listing_id l \<notin> set (favorites u1) \<longleftrightarrow> favoritesCount l1 = favoritesCount l - 1)
         \<and> isFavorited r1 = (listing_id l \<in> set (favorites u1))
         \<and> response_favoritesCount r1 = favoritesCount l1"
proof (cases "listing_id l \<in> set (favorites u)")
  case True
  with synced have c: "1 \<le> favoritesCount l" by simp
  let ?u1 = "u\<lparr>favorites := remove1 (listing_id l) (favorites u)\<rparr>"
  let ?l1 = "l\<lparr>favoritesCount := favoritesCount l - 1\<rparr>"
  have gone: "listing_id l \<notin> set (remove1 (listing_id l) (favorites u))"
    using once by (rule single_occurrence_removed)
  have first: "toggle_favorite u (Some l)
                 = Inr (?u1, ?l1, \<lparr>isFavorited = False,
                                    response_favoritesCount = favoritesCount l - 1\<rparr>)"
    using True c by (simp add: toggle_favorite_Some splice1_indexOf max_def)
  have second: "toggle_favorite ?u1 (Some ?l1)
                 = Inr (u\<lparr>favorites := remove1 (listing_id l) (favorites u) @ [listing_id l]\<rparr>,
                        l, \<lparr>isFavorited = True, response_favoritesCount = favoritesCount l\<rparr>)"
    using gone by (simp add: toggle_favorite_Some)
  have sets: "set (remove1 (listing_id l) (favorites u) @ [listing_id l]) = set (favorites u)"
    using insert_remove1 [OF True] by simp
  show ?thesis
    using first second sets gone True by (simp add: toggle_twice_def)
next
  case False
  with synced have c: "0 \<le> favoritesCount l" by simp
  let ?u1 = "u\<lparr>favorites := favorites u @ [listing_id l]\<rparr>"
  let ?l1 = "l\<lparr>favoritesCount := favoritesCount l + 1\<rparr>"
  have first: "toggle_favorite u (Some l)
                 = Inr (?u1, ?l1, \<lparr>isFavorited = True,
                                    response_favoritesCount = favoritesCount l + 1\<rparr>)"
    using False by (simp add: toggle_favorite_Some)
  have restored: "remove1 (listing_id l) (favorites u @ [listing_id l]) = favorites u"
    using False by (rule remove1_appended)
  have second: "toggle_favorite ?u1 (Some ?l1)
                 = Inr (u, l, \<lparr>isFavorited = False, response_favoritesCount = favoritesCount l\<rparr>)"
    using c restored by (simp add: toggle_favorite_Some splice1_indexOf max_def)
  show ?thesis
    using first second False by (simp add: toggle_twice_def)
qed

theorem C8_toggle_twice_witness:
  "count_list (favorites ((new_user 2 ''bob'')\<lparr>favorites := [7]\<rparr>))
     (listing_id (lamp\<lparr>favoritesCount := 1\<rparr>)) \<le> 1
   \<and> listing_id (lamp\<lparr>favoritesCount := 1\<rparr>)
       \<in> set (favorites ((new_user 2 ''bob'')\<lparr>favorites := [7]\<rparr>))
   \<and> 1 \<le> favoritesCount (lamp\<lparr>favoritesCount := 1\<rparr>)
   \<and> (\<exists>u2 l2 r2.
         toggle_twice ((new_user 2 ''bob'')\<lparr>favorites := [7]\<rparr>) (lamp\<lparr>favoritesCount := 1\<rparr>)
           = Inr (u2, l2, r2)
         \<and> set (favorites u2) = {7} \<and> favoritesCount l2 = 1)"
proof -
  let ?u = "(new_user 2 ''bob'')\<lparr>favorites := [7]\<rparr>"
  let ?l = "lamp\<lparr>favoritesCount := 1\<rparr>"
  have once: "count_list (favorites ?u) (listing_id ?l) \<le> 1"
    by (simp add: lamp_def)
  have mem: "listing_id ?l \<in> set (favorites ?u)"
    by (simp add: lamp_def)
  have synced: "if listing_id ?l \<in> set (favorites ?u) then 1 \<le> favoritesCount ?l
                else 0 \<le> favoritesCount ?l"
    by (simp add: lamp_def)
  from C8_toggle_twice [OF once synced]
  obtain u2 l2 r2 where "toggle_twice ?u ?l = Inr (u2, l2, r2)"
    and "set (favorites u2) = set (favorites ?u)" and "favoritesCount l2 = favoritesCount ?l"
    by blast
  then have "\<exists>u2 l2 r2. toggle_twice ?u ?l = Inr (u2, l2, r2)
               \<and> set (favorites u2) = {7} \<and> favoritesCount l2 = 1"
    by simp
  with once mem show ?thesis by simp
qed

text \<open>
  The claim as stated fails where the stored counter is 0 although the user holds the
  listing as a favorite: the first toggle removes the listing without decrementing the
  counter, and the second toggle leaves the counter at 1. It also fails where the
  listing occurs twice among the favorites: both toggles remove an occurrence.
\<close>

theorem C8_counterexample:
  "favorites ((new_user 2 ''bob'')\<lparr>favorites := [7]\<rparr>) = [7]
   \<and> listing_id lamp = 7
   \<and> favoritesCount lamp = 0
   \<and> toggled_state (toggle_favorite ((new_user 2 ''bob'')\<lparr>favorites := [7]\<rparr>) (Some lamp))
       = Some ([], 0)
   \<and> toggled_state (toggle_twice ((new_user 2 ''bob'')\<lparr>favorites := [7]\<rparr>) lamp)
       = Some ([7], 1)
   \<and> toggled_state
         (toggle_twice ((new_user 2 ''bob'')\<lparr>favorites := [7, 7]\<rparr>) (lamp\<lparr>favoritesCount := 2\<rparr>))
       = Some ([], 0)"
  by (simp add: toggled_state_def toggle_twice_def toggle_favorite_def lamp_def new_user_def
        splice1_def Let_def)

section \<open>Properties of reports\<close>

lemma report_listing_new:
  assumes "trim reason \<noteq> []" and "user_id u \<notin> report_user ` set (reports l)"
  shows "report_listing now u reason (Some l)
           = Inr (l\<lparr>reports := reports l
                         @ [\<lparr>report_user = user_id u, report_reason = trim reason,
                              report_createdAt = now\<rparr>],
                     moderationStatus := (if 3 \<le> length (reports l) + 1 then ModerationPending
                                          else moderationStatus l)\<rparr>)"
proof -
  have "\<not> list_ex (\<lambda>r. report_user r = user_id u) (reports l)"
    using assms(2) by (force simp: list_ex_iff)
  then show ?thesis
    using assms(1) by (simp add: report_listing_def Let_def)
qed

lemma report_listing_duplicate:
  assumes "trim reason \<noteq> []" and "user_id u \<in> report_user ` set (reports l)"
  shows "report_listing now u reason (Some l)
           = Inl (Failure 400 ''You have already reported this listing'')"
proof -
  have "list_ex (\<lambda>r. report_user r = user_id u) (reports l)"
    using assms(2) by (auto simp: list_ex_iff)
  then show ?thesis
    using assms(1) by (simp add: report_listing_def Let_def)
qed

lemma after_reports_distinct:
  assumes "trim reason \<noteq> []"
  shows "distinct (map user_id us) \<Longrightarrow>
         user_id ` set us \<inter> report_user ` set (reports l) = {} \<Longrightarrow>
         map report_user (reports (after_reports now reason l us))
           = map report_user (reports l) @ map user_id us
         \<and> (us \<noteq> [] \<longrightarrow> 3 \<le> length (reports l) + length us \<longrightarrow>
              moderationStatus (after_reports now reason l us) = ModerationPending)
         \<and> (length (reports l) + length us < 3 \<longrightarrow>
              moderationStatus (after_reports now reason l us) = moderationStatus l)"
proof (induction us arbitrary: l)
  case Nil
  then show ?case by simp
next
  case (Cons u us)
  let ?l' = "l\<lparr>reports := reports l
                         @ [\<lparr>report_user = user_id u, report_reason = trim reason,
                              report_createdAt = now\<rparr>],
                     moderationStatus := (if 3 \<le> length (reports l) + 1 then ModerationPending
                                          else moderationStatus l)\<rparr>"
  have fresh: "user_id u \<notin> report_user ` set (reports l)"
    using Cons.prems(2) by auto
  have step: "report_listing now u reason (Some l) = Inr ?l'"
    using assms fresh by (rule report_listing_new)
  have d: "distinct (map user_id us)" using Cons.prems(1) by simp
  have disj: "user_id ` set us \<inter> report_user ` set (reports ?l') = {}"
    using Cons.prems by auto
  note IH = Cons.IH [OF d disj]
  show ?case
    using IH step by (cases "us = []") auto
qed

text \<open>
  C7. A report with a non-empty reason by a user who has not reported the listing
  appends exactly one report and changes nothing else but the moderation status, which
  becomes pending exactly when the listing then holds three or more reports; the same
  user's next report is rejected (\<open>You have already reported this listing\<close>, the
  duplicate error) and leaves the stored listing as it is. Reports by three distinct
  users on a listing without reports end with moderation status pending, whatever it
  was before.
\<close>

theorem C7_report:
  assumes "trim reason \<noteq> []" and "trim reason2 \<noteq> []"
  shows "(user_id u \<notin> report_user ` set (reports l) \<longrightarrow>
            (\<exists>l'. report_listing now u reason (Some l) = Inr l'
               \<and> reports l' = reports l @ [\<lparr>report_user = user_id u, report_reason = trim reason,
                                               report_createdAt = now\<rparr>]
               \<and> l' = l\<lparr>reports := reports l', moderationStatus := moderationStatus l'\<rparr>
               \<and> moderationStatus l' = (if 3 \<le> length (reports l') then ModerationPending
                                         else moderationStatus l)
               \<and> report_listing later u reason2 (Some l')
                   = Inl (Failure 400 ''You have already reported this listing'')
               \<and> after_reports later reason2 l' [u] = l'))
       \<and> (user_id u \<in> report_user ` set (reports l) \<longrightarrow>
            report_listing now u reason (Some l)
              = Inl (Failure 400 ''You have already reported this listing''))
       \<and> (reports l = [] \<and> distinct [user_id a, user_id b, user_id c] \<longrightarrow>
            moderationStatus (after_reports now reason l [a, b, c]) = ModerationPending
            \<and> map report_user (reports (after_reports now reason l [a, b, c]))
                = [user_id a, user_id b, user_id c])"
proof (intro conjI impI)
  assume fresh: "user_id u \<notin> report_user ` set (reports l)"
  let ?l' = "l\<lparr>reports := reports l
                         @ [\<lparr>report_user = user_id u, report_reason = trim reason,
                              report_createdAt = now\<rparr>],
                     moderationStatus := (if 3 \<le> length (reports l) + 1 then ModerationPending
                                          else moderationStatus l)\<rparr>"
  have step: "report_listing now u reason (Some l) = Inr ?l'"
    using assms(1) fresh by (rule report_listing_new)
  have dup: "user_id u \<in> report_user ` set (reports ?l')" by simp
  have again: "report_listing later u reason2 (Some ?l')
                 = Inl (Failure 400 ''You have already reported this listing'')"
    using assms(2) dup by (rule report_listing_duplicate)
  show "\<exists>l'. report_listing now u reason (Some l) = Inr l'
               \<and> reports l' = reports l @ [\<lparr>report_user = user_id u, report_reason = trim reason,
                                               report_createdAt = now\<rparr>]
               \<and> l' = l\<lparr>reports := reports l', moderationStatus := moderationStatus l'\<rparr>
               \<and> moderationStatus l' = (if 3 \<le> length (reports l') then ModerationPending
                                         else moderationStatus l)
               \<and> report_listing later u reason2 (Some l')
                   = Inl (Failure 400 ''You have already reported this listing'')
               \<and> after_reports later reason2 l' [u] = l'"
    using step again by simp
next
  assume "user_id u \<in> report_user ` set (reports l)"
  with assms(1) show "report_listing now u reason (Some l)
              = Inl (Failure 400 ''You have already reported this listing'')"
    by (rule report_listing_duplicate)
next
  assume h: "reports l = [] \<and> distinct [user_id a, user_id b, user_id c]"
  then have d: "distinct (map user_id [a, b, c])" by simp
  have e: "user_id ` set [a, b, c] \<inter> report_user ` set (reports l) = {}" using h by simp
  from after_reports_distinct [OF assms(1) d e, of now] h
  show "moderationStatus (after_reports now reason l [a, b, c]) = ModerationPending" by simp
  from after_reports_distinct [OF assms(1) d e, of now] h
  show "map report_user (reports (after_reports now reason l [a, b, c]))
                = [user_id a, user_id b, user_id c]" by simp
qed

lemma trim_spam: "trim ''spam'' = ''spam''"
  by code_simp

theorem C7_report_witness:
  "trim ''spam'' \<noteq> []
   \<and> user_id (new_user 2 ''bob'') \<notin> report_user ` set (reports lamp)
   \<and> reports lamp = []
   \<and> distinct [user_id (new_user 2 ''bob''), user_id (new_user 3 ''eve''),
                user_id (new_user 4 ''dan'')]
   \<and> moderationStatus lamp = Approved
   \<and> (\<exists>l'. report_listing 1000 (new_user 2 ''bob'') ''spam'' (Some lamp) = Inr l'
         \<and> map report_user (reports l') = [2]
         \<and> moderationStatus l' = Approved
         \<and> report_listing 2000 (new_user 2 ''bob'') ''spam'' (Some l')
             = Inl (Failure 400 ''You have already reported this listing''))
   \<and> moderationStatus
         (after_reports 1000 ''spam'' lamp
            [new_user 2 ''bob'', new_user 3 ''eve'', new_user 4 ''dan''])
       = ModerationPending"
proof -
  have r: "trim ''spam'' \<noteq> []" by (simp add: trim_spam)
  have f: "user_id (new_user 2 ''bob'') \<notin> report_user ` set (reports lamp)"
    by (simp add: lamp_def)
  have e: "reports lamp = []" by (simp add: lamp_def)
  have d: "distinct [user_id (new_user 2 ''bob''), user_id (new_user 3 ''eve''),
                     user_id (new_user 4 ''dan'')]"
    by (simp add: new_user_def)
  have m: "moderationStatus lamp = Approved" by (simp add: lamp_def)
  from C7_report [OF r r, of "new_user 2 ''bob''" lamp 1000 2000
                     "new_user 2 ''bob''" "new_user 3 ''eve''" "new_user 4 ''dan''"] f e d
  have "(\<exists>l'. report_listing 1000 (new_user 2 ''bob'') ''spam'' (Some lamp) = Inr l'
         \<and> map report_user (reports l') = [2]
         \<and> moderationStatus l' = Approved
         \<and> report_listing 2000 (new_user 2 ''bob'') ''spam'' (Some l')
             = Inl (Failure 400 ''You have already reported this listing''))
     \<and> moderationStatus
         (after_reports 1000 ''spam'' lamp
            [new_user 2 ''bob'', new_user 3 ''eve'', new_user 4 ''dan''])
       = ModerationPending"
    by (auto simp: new_user_def m trim_spam)
  with r f e d m show ?thesis by blast
qed

section \<open>Properties of identity verification\<close>

lemma submit_verification_count_ok:
  assumes "(docType = ''passport'' \<and> length files = 1)
           \<or> ((docType = ''student_card'' \<or> docType = ''residential_card'') \<and> length files = 2)"
  shows "submit_verification now u docType files =
           (if verification_status (verification u) = VerificationApproved
            then Inl (Failure 400 ''Already verified'')
            else if verification_status (verification u) = VerificationPending
            then Inl (Failure 400 ''Verification already pending review'')
            else Inr (u\<lparr>verification :=
                       \<lparr>verification_status = VerificationPending,
                        documentType = Some docType,
                        documentImages =
                          map (\<lambda>f. \<lparr>url = (case dataUrl f of
                                              Some d \<Rightarrow> d
                                            | None \<Rightarrow> ''/uploads/'' @ upload_filename f),
                                     filename = upload_filename f\<rparr>) files,
                        submittedAt = Some now,
                        reviewedAt = None,
                        reviewedBy = None,
                        rejectionReason = None\<rparr>\<rparr>))"
  using assms
  by (auto simp: submit_verification_def document_types_def requiredCount_def Let_def)

text \<open>
  C5. Submit answers 400 \<open>Invalid document type\<close> when the document type is none of
  \<open>passport\<close>, \<open>student_card\<close> and \<open>residential_card\<close>; for a passport it
  answers 400 unless there is exactly 1 image, and for a student card or a residential
  card unless there are exactly 2 (the validation errors, decided before the stored
  status is looked at). For a passport with 1 image, or one of the cards with 2, it
  answers 400 \<open>Already verified\<close> or \<open>Verification already pending review\<close> (the
  conflict) when the current status is approved or pending; otherwise, from unverified
  or rejected, it succeeds and replaces the whole verification record by one with status
  pending, the submitted type and images, the submission time, and no review data and no
  rejection reason, whatever the record held before.
\<close>

theorem C5_submit:
  "(docType \<noteq> ''passport'' \<and> docType \<noteq> ''student_card'' \<and> docType \<noteq> ''residential_card'' \<longrightarrow>
      submit_verification now u docType files = Inl (Failure 400 ''Invalid document type''))
   \<and> (length files = 0 \<longrightarrow>
        submit_verification now u ''passport'' files
          = Inl (Failure 400 ''Please upload document images'')
      \<and> submit_verification now u ''student_card'' files
          = Inl (Failure 400 ''Please upload document images'')
      \<and> submit_verification now u ''residential_card'' files
          = Inl (Failure 400 ''Please upload document images''))
   \<and> (length files \<noteq> 0 \<and> length files \<noteq> 1 \<longrightarrow>
        submit_verification now u ''passport'' files
          = Inl (Failure 400 ''Passport requires exactly 1 image''))
   \<and> (length files \<noteq> 0 \<and> length files \<noteq> 2 \<longrightarrow>
        submit_verification now u ''student_card'' files
          = Inl (Failure 400 ''student card requires 2 images (front and back)'')
      \<and> submit_verification now u ''residential_card'' files
          = Inl (Failure 400 ''residential card requires 2 images (front and back)''))
   \<and> ((docType = ''passport'' \<and> length files = 1)
        \<or> ((docType = ''student_card'' \<or> docType = ''residential_card'') \<and> length files = 2) \<longrightarrow>
        (verification_status (verification u) = VerificationApproved \<longrightarrow>
           submit_verification now u docType files = Inl (Failure 400 ''Already verified''))
      \<and> (verification_status (verification u) = VerificationPending \<longrightarrow>
           submit_verification now u docType files
             = Inl (Failure 400 ''Verification already pending review''))
      \<and> (verification_status (verification u) = Unverified
           \<or> verification_status (verification u) = VerificationRejected \<longrightarrow>
           submit_verification now u docType files
             = Inr (u\<lparr>verification :=
                       \<lparr>verification_status = VerificationPending,
                        documentType = Some docType,
                        documentImages =
                          map (\<lambda>f. \<lparr>url = (case dataUrl f of
                                              Some d \<Rightarrow> d
                                            | None \<Rightarrow> ''/uploads/'' @ upload_filename f),
                                     filename = upload_filename f\<rparr>) files,
                        submittedAt = Some now,
                        reviewedAt = None,
                        reviewedBy = None,
                        rejectionReason = None\<rparr>\<rparr>)))"
proof (intro conjI impI)
  assume "docType \<noteq> ''passport'' \<and> docType \<noteq> ''student_card'' \<and> docType \<noteq> ''residential_card''"
  then show "submit_verification now u docType files = Inl (Failure 400 ''Invalid document type'')"
    by (simp add: submit_verification_def document_types_def)
next
  assume "length files = 0"
  then show "submit_verification now u ''passport'' files
          = Inl (Failure 400 ''Please upload document images'')"
    by (simp add: submit_verification_def document_types_def)
next
  assume "length files = 0"
  then show "submit_verification now u ''student_card'' files
          = Inl (Failure 400 ''Please upload document images'')"
    by (simp add: submit_verification_def document_types_def)
next
  assume "length files = 0"
  then show "submit_verification now u ''residential_card'' files
          = Inl (Failure 400 ''Please upload document images'')"
    by (simp add: submit_verification_def document_types_def)
next
  assume "length files \<noteq> 0 \<and> length files \<noteq> 1"
  then show "submit_verification now u ''passport'' files
          = Inl (Failure 400 ''Passport requires exactly 1 image'')"
    by (simp add: submit_verification_def document_types_def requiredCount_def)
next
  assume "length files \<noteq> 0 \<and> length files \<noteq> 2"
  then show "submit_verification now u ''student_card'' files
          = Inl (Failure 400 ''student card requires 2 images (front and back)'')"
    by (simp add: submit_verification_def document_types_def requiredCount_def)
next
  assume "length files \<noteq> 0 \<and> length files \<noteq> 2"
  then show "submit_verification now u ''residential_card'' files
          = Inl (Failure 400 ''residential card requires 2 images (front and back)'')"
    by (simp add: submit_verification_def document_types_def requiredCount_def)
next
  assume ok: "(docType = ''passport'' \<and> length files = 1)
        \<or> ((docType = ''student_card'' \<or> docType = ''residential_card'') \<and> length files = 2)"
  assume "verification_status (verification u) = VerificationApproved"
  then show "submit_verification now u docType files = Inl (Failure 400 ''Already verified'')"
    by (simp add: submit_verification_count_ok [OF ok])
next
  assume ok: "(docType = ''passport'' \<and> length files = 1)
        \<or> ((docType = ''student_card'' \<or> docType = ''residential_card'') \<and> length files = 2)"
  assume "verification_status (verification u) = VerificationPending"
  then show "submit_verification now u docType files
             = Inl (Failure 400 ''Verification already pending review'')"
    by (simp add: submit_verification_count_ok [OF ok])
next
  assume ok: "(docType = ''passport'' \<and> length files = 1)
        \<or> ((docType = ''student_card'' \<or> docType = ''residential_card'') \<and> length files = 2)"
  assume "verification_status (verification u) = Unverified
           \<or> verification_status (verification u) = VerificationRejected"
  then show "submit_verification now u docType files
             = Inr (u\<lparr>verification :=
                       \<lparr>verification_status = VerificationPending,
                        documentType = Some docType,
                        documentImages =
                          map (\<lambda>f. \<lparr>url = (case dataUrl f of
                                              Some d \<Rightarrow> d
                                            | None \<Rightarrow> ''/uploads/'' @ upload_filename f),
                                     filename = upload_filename f\<rparr>) files,
                        submittedAt = Some now,
                        reviewedAt = None,
                        reviewedBy = None,
                        rejectionReason = None\<rparr>\<rparr>)"
    by (auto simp: submit_verification_count_ok [OF ok])
qed

theorem C5_submit_witness:
  "length [\<lparr>upload_filename = ''p.webp'', dataUrl = None\<rparr>] = 1
   \<and> length [\<lparr>upload_filename = ''p.webp'', dataUrl = None\<rparr>,
              \<lparr>upload_filename = ''q.webp'', dataUrl = None\<rparr>] = 2
   \<and> verification_status
         (verification ((new_user 1 ''sara'')
            \<lparr>verification := no_verification\<lparr>verification_status := VerificationRejected,
                                                rejectionReason := Some ''blurred''\<rparr>\<rparr>))
       = VerificationRejected
   \<and> submit_verification 1000
         ((new_user 1 ''sara'')
            \<lparr>verification := no_verification\<lparr>verification_status := VerificationRejected,
                                                rejectionReason := Some ''blurred''\<rparr>\<rparr>)
         ''passport''
         [\<lparr>upload_filename = ''p.webp'', dataUrl = None\<rparr>,
          \<lparr>upload_filename = ''q.webp'', dataUrl = None\<rparr>]
       = Inl (Failure 400 ''Passport requires exactly 1 image'')
   \<and> submit_verification 1000
         ((new_user 1 ''sara'')
            \<lparr>verification := no_verification\<lparr>verification_status := VerificationRejected,
                                                rejectionReason := Some ''blurred''\<rparr>\<rparr>)
         ''student_card'' [\<lparr>upload_filename = ''p.webp'', dataUrl = None\<rparr>]
       = Inl (Failure 400 ''student card requires 2 images (front and back)'')
   \<and> submit_verification 1000
         ((new_user 1 ''sara'')
            \<lparr>verification := no_verification\<lparr>verification_status := VerificationRejected,
                                                rejectionReason := Some ''blurred''\<rparr>\<rparr>)
         ''driving_licence'' [\<lparr>upload_filename = ''p.webp'', dataUrl = None\<rparr>]
       = Inl (Failure 400 ''Invalid document type'')
   \<and> (\<exists>u'. submit_verification 1000
               ((new_user 1 ''sara'')
                  \<lparr>verification := no_verification\<lparr>verification_status := VerificationRejected,
                                                      rejectionReason := Some ''blurred''\<rparr>\<rparr>)
               ''passport'' [\<lparr>upload_filename = ''p.webp'', dataUrl = None\<rparr>]
             = Inr u'
          \<and> verification_status (verification u') = VerificationPending
          \<and> rejectionReason (verification u') = None)
   \<and> (\<exists>u'. submit_verification 1000
               ((new_user 1 ''sara'')
                  \<lparr>verification := no_verification\<lparr>verification_status := VerificationRejected,
                                                      rejectionReason := Some ''blurred''\<rparr>\<rparr>)
               ''student_card''
               [\<lparr>upload_filename = ''p.webp'', dataUrl = None\<rparr>,
                \<lparr>upload_filename = ''q.webp'', dataUrl = None\<rparr>]
             = Inr u'
          \<and> verification_status (verification u') = VerificationPending
          \<and> length (documentImages (verification u')) = 2
          \<and> rejectionReason (verification u') = None)"
proof -
  let ?u = "(new_user 1 ''sara'')
              \<lparr>verification := no_verification\<lparr>verification_status := VerificationRejected,
                                                  rejectionReason := Some ''blurred''\<rparr>\<rparr>"
  let ?one = "[\<lparr>upload_filename = ''p.webp'', dataUrl = None\<rparr>]"
  let ?two = "[\<lparr>upload_filename = ''p.webp'', dataUrl = None\<rparr>,
               \<lparr>upload_filename = ''q.webp'', dataUrl = None\<rparr>]"
  have c1: "length ?one = 1" by simp
  have c2: "length ?two = 2" by simp
  have v: "verification_status (verification ?u) = VerificationRejected"
    by (simp add: no_verification_def)
  from C5_submit [of "''passport''" 1000 ?u ?two]
  have bad_passport: "submit_verification 1000 ?u ''passport'' ?two
                        = Inl (Failure 400 ''Passport requires exactly 1 image'')"
    by simp
  from C5_submit [of "''student_card''" 1000 ?u ?one]
  have bad_card: "submit_verification 1000 ?u ''student_card'' ?one
                    = Inl (Failure 400 ''student card requires 2 images (front and back)'')"
    by simp
  from C5_submit [of "''driving_licence''" 1000 ?u ?one]
  have bad_type: "submit_verification 1000 ?u ''driving_licence'' ?one
                    = Inl (Failure 400 ''Invalid document type'')"
    by simp
  from C5_submit [of "''passport''" 1000 ?u ?one] v
  have good_passport: "\<exists>u'. submit_verification 1000 ?u ''passport'' ?one = Inr u'
                \<and> verification_status (verification u') = VerificationPending
                \<and> rejectionReason (verification u') = None"
    by simp
  from C5_submit [of "''student_card''" 1000 ?u ?two] v
  have good_card: "\<exists>u'. submit_verification 1000 ?u ''student_card'' ?two = Inr u'
                \<and> verification_status (verification u') = VerificationPending
                \<and> length (documentImages (verification u')) = 2
                \<and> rejectionReason (verification u') = None"
    by simp
  from c1 c2 v bad_passport bad_card bad_type good_passport good_card show ?thesis by blast
qed

lemma review_success:
  assumes a: "action = ''approve'' \<or> (action = ''reject'' \<and> reason \<noteq> None \<and> reason \<noteq> Some [])"
      and p: "verification_status (verification u) = VerificationPending"
  shows "\<exists>out. review_verification now dispatch admin action reason (Some u) = Inr out
           \<and> verification_status (verification (reviewed_user out))
               = (if action = ''approve'' then VerificationApproved else VerificationRejected)
           \<and> reviewedAt (verification (reviewed_user out)) = Some now
           \<and> reviewedBy (verification (reviewed_user out)) = Some (user_id admin)
           \<and> rejectionReason (verification (reviewed_user out))
               = (if action = ''reject'' then reason else rejectionReason (verification u))
           \<and> butlast (notifications (reviewed_user out)) = notifications u
           \<and> length (notifications (reviewed_user out)) = length (notifications u) + 1
           \<and> notification_type (last (notifications (reviewed_user out))) = NSystem
           \<and> review_console out
               = (if dispatch (review_mail out) then []
                  else [''Failed to send verification email''])"
  using a p by (auto simp: review_verification_def Let_def)

lemma review_effect_independent:
  "review_effect (review_verification now dispatch admin action reason found)
     = review_effect (review_verification now dispatch2 admin action reason found)"
  by (simp add: review_verification_def review_effect_def Let_def split: option.splits)

text \<open>
  C6. Review answers 400 for an action other than approve and reject, and for a reject
  without a non-empty reason; with a valid request it answers 400
  \<open>No pending verification for this user\<close> (the conflict) whenever the status of the
  user is not pending, so a second review of a reviewed submission fails; on a pending
  submission it succeeds, sets the status, \<open>reviewedAt\<close> and \<open>reviewedBy\<close> (and the
  rejection reason on reject), and appends exactly one notification of type system. What
  the review stores and answers does not depend on the email dispatcher: when the
  dispatch fails, only the console differs.
\<close>

theorem C6_review:
  "(action \<noteq> ''approve'' \<and> action \<noteq> ''reject'' \<longrightarrow>
      review_verification now dispatch admin action reason found
        = Inl (Failure 400 ''Invalid action. Use approve or reject''))
   \<and> (action = ''reject'' \<and> (reason = None \<or> reason = Some []) \<longrightarrow>
      review_verification now dispatch admin action reason found
        = Inl (Failure 400 ''Rejection reason is required''))
   \<and> ((action = ''approve'' \<or> (action = ''reject'' \<and> reason \<noteq> None \<and> reason \<noteq> Some [])) \<longrightarrow>
        (verification_status (verification u) \<noteq> VerificationPending \<longrightarrow>
           review_verification now dispatch admin action reason (Some u)
             = Inl (Failure 400 ''No pending verification for this user''))
      \<and> (verification_status (verification u) = VerificationPending \<longrightarrow>
           (\<exists>out. review_verification now dispatch admin action reason (Some u) = Inr out
              \<and> verification_status (verification (reviewed_user out))
                  = (if action = ''approve'' then VerificationApproved else VerificationRejected)
              \<and> reviewedAt (verification (reviewed_user out)) = Some now
              \<and> reviewedBy (verification (reviewed_user out)) = Some (user_id admin)
              \<and> rejectionReason (verification (reviewed_user out))
                  = (if action = ''reject'' then reason else rejectionReason (verification u))
              \<and> butlast (notifications (reviewed_user out)) = notifications u
              \<and> length (notifications (reviewed_user out)) = length (notifications u) + 1
              \<and> notification_type (last (notifications (reviewed_user out))) = NSystem
              \<and> review_console out
                  = (if dispatch (review_mail out) then []
                     else [''Failed to send verification email''])
              \<and> review_verification later dispatch2 admin2 action reason
                    (Some (reviewed_user out))
                  = Inl (Failure 400 ''No pending verification for this user''))))
   \<and> review_effect (review_verification now dispatch admin action reason found)
       = review_effect (review_verification now (\<lambda>m. False) admin action reason found)"
proof (intro conjI impI)
  assume "action \<noteq> ''approve'' \<and> action \<noteq> ''reject''"
  then show "review_verification now dispatch admin action reason found
        = Inl (Failure 400 ''Invalid action. Use approve or reject'')"
    by (simp add: review_verification_def)
next
  assume "action = ''reject'' \<and> (reason = None \<or> reason = Some [])"
  then show "review_verification now dispatch admin action reason found
        = Inl (Failure 400 ''Rejection reason is required'')"
    by (auto simp: review_verification_def)
next
  assume a: "action = ''approve'' \<or> (action = ''reject'' \<and> reason \<noteq> None \<and> reason \<noteq> Some [])"
  assume "verification_status (verification u) \<noteq> VerificationPending"
  with a show "review_verification now dispatch admin action reason (Some u)
             = Inl (Failure 400 ''No pending verification for this user'')"
    by (auto simp: review_verification_def)
next
  assume a: "action = ''approve'' \<or> (action = ''reject'' \<and> reason \<noteq> None \<and> reason \<noteq> Some [])"
  assume p: "verification_status (verification u) = VerificationPending"
  from review_success [OF a p, of now dispatch admin]
  obtain out where out: "review_verification now dispatch admin action reason (Some u) = Inr out"
    and rest: "verification_status (verification (reviewed_user out))
                  = (if action = ''approve'' then VerificationApproved else VerificationRejected)"
      "reviewedAt (verification (reviewed_user out)) = Some now"
      "reviewedBy (verification (reviewed_user out)) = Some (user_id admin)"
      "rejectionReason (verification (reviewed_user out))
                  = (if action = ''reject'' then reason else rejectionReason (verification u))"
      "butlast (notifications (reviewed_user out)) = notifications u"
      "length (notifications (reviewed_user out)) = length (notifications u) + 1"
      "notification_type (last (notifications (reviewed_user out))) = NSystem"
      "review_console out
                  = (if dispatch (review_mail out) then []
                     else [''Failed to send verification email''])"
    by blast
  have np: "verification_status (verification (reviewed_user out)) \<noteq> VerificationPending"
    using rest(1) by simp
  have again: "review_verification later dispatch2 admin2 action reason (Some (reviewed_user out))
                  = Inl (Failure 400 ''No pending verification for this user'')"
    using a np by (auto simp: review_verification_def)
  show "\<exists>out. review_verification now dispatch admin action reason (Some u) = Inr out
              \<and> verification_status (verification (reviewed_user out))
                  = (if action = ''approve'' then VerificationApproved else VerificationRejected)
              \<and> reviewedAt (verification (reviewed_user out)) = Some now
              \<and> reviewedBy (verification (reviewed_user out)) = Some (user_id admin)
              \<and> rejectionReason (verification (reviewed_user out))
                  = (if action = ''reject'' then reason else rejectionReason (verification u))
              \<and> butlast (notifications (reviewed_user out)) = notifications u
              \<and> length (notifications (reviewed_user out)) = length (notifications u) + 1
              \<and> notification_type (last (notifications (reviewed_user out))) = NSystem
              \<and> review_console out
                  = (if dispatch (review_mail out) then []
                     else [''Failed to send verification email''])
              \<and> review_verification later dispatch2 admin2 action reason
                    (Some (reviewed_user out))
                  = Inl (Failure 400 ''No pending verification for this user'')"
    using out rest again by blast
next
  show "review_effect (review_verification now dispatch admin action reason found)
       = review_effect (review_verification now (\<lambda>m. False) admin action reason found)"
    by (rule review_effect_independent)
qed

theorem C6_review_witness:
  "verification_status (verification applicant) = VerificationPending
   \<and> (\<exists>out. review_verification 1000 (\<lambda>m. False) admin_user ''approve'' None (Some applicant)
               = Inr out
          \<and> verification_status (verification (reviewed_user out)) = VerificationApproved
          \<and> reviewedBy (verification (reviewed_user out)) = Some 9
          \<and> length (notifications (reviewed_user out)) = 51
          \<and> review_console out = [''Failed to send verification email'']
          \<and> review_verification 2000 (\<lambda>m. False) admin_user ''approve'' None
               (Some (reviewed_user out))
             = Inl (Failure 400 ''No pending verification for this user''))
   \<and> review_verification 1000 (\<lambda>m. False) admin_user ''reject'' (Some []) (Some applicant)
       = Inl (Failure 400 ''Rejection reason is required'')
   \<and> review_verification 1000 (\<lambda>m. False) admin_user ''delete'' None (Some applicant)
       = Inl (Failure 400 ''Invalid action. Use approve or reject'')"
proof -
  have p: "verification_status (verification applicant) = VerificationPending"
    by (simp add: applicant_def no_verification_def)
  have n: "length (notifications applicant) = 50" by (simp add: applicant_def)
  have i: "user_id admin_user = 9" by (simp add: admin_user_def new_user_def)
  note inst = C6_review [of _ 1000 "\<lambda>m. False" admin_user _ "Some applicant" applicant
                          2000 "\<lambda>m. False" admin_user]
  from inst [of "''approve''" None] p n i
  have ok: "\<exists>out. review_verification 1000 (\<lambda>m. False) admin_user ''approve'' None (Some applicant)
               = Inr out
          \<and> verification_status (verification (reviewed_user out)) = VerificationApproved
          \<and> reviewedBy (verification (reviewed_user out)) = Some 9
          \<and> length (notifications (reviewed_user out)) = 51
          \<and> review_console out = [''Failed to send verification email'']
          \<and> review_verification 2000 (\<lambda>m. False) admin_user ''approve'' None
               (Some (reviewed_user out))
             = Inl (Failure 400 ''No pending verification for this user'')"
    by auto
  from inst [of "''reject''" "Some []"]
  have r: "review_verification 1000 (\<lambda>m. False) admin_user ''reject'' (Some []) (Some applicant)
       = Inl (Failure 400 ''Rejection reason is required'')"
    by simp
  from inst [of "''delete''" None]
  have d: "review_verification 1000 (\<lambda>m. False) admin_user ''delete'' None (Some applicant)
       = Inl (Failure 400 ''Invalid action. Use approve or reject'')"
    by simp
  from p ok r d show ?thesis by blast
qed

section \<open>Properties of the listing lifecycle\<close>

text \<open>
  C9. For every user whose verification status is not approved, and whatever the
  request holds, creating a listing is answered by \<^verbatim>\<open>verifiedOnly\<close> with 403 and
  \<^verbatim>\<open>requiresVerification: true\<close>. An approved user passes the gate and reaches the
  handler, which creates the listing when the request passes validation; every listing
  that is created has moderation status pending, status active and is not deleted.
\<close>

theorem C9_create:
  "(verification_status (verification u) \<noteq> VerificationApproved \<longrightarrow>
      post_listing new_id now u b files
        = Inl (VerificationRequired 403 ''Identity verification required''))
   \<and> (verification_status (verification u) = VerificationApproved \<longrightarrow>
        post_listing new_id now u b files = create_listing_handler new_id now u b files
      \<and> post_listing new_id now u b files
           \<noteq> Inl (VerificationRequired 403 ''Identity verification required'')
      \<and> (create_validation b = [] \<and> body_price b = Some p \<and> body_location b = Location area city
          \<and> schema_errors
               (new_listing new_id now (user_id u) (trim (body_title b))
                  (trim (body_description b)) p (body_category b) (body_condition b) area city
                  (map (\<lambda>f. \<lparr>url = ''/uploads/'' @ f, filename = f\<rparr>) files)) = []
          \<longrightarrow> (\<exists>l. post_listing new_id now u b files = Inr l
                 \<and> moderationStatus l = ModerationPending \<and> status l = Active \<and> \<not> isDeleted l
                 \<and> seller l = user_id u \<and> listing_id l = new_id)))
   \<and> (post_listing new_id now u b files = Inr l' \<longrightarrow>
        verification_status (verification u) = VerificationApproved
      \<and> moderationStatus l' = ModerationPending \<and> status l' = Active \<and> \<not> isDeleted l'
      \<and> deletedAt l' = None \<and> seller l' = user_id u)"
proof (intro conjI impI)
  assume "verification_status (verification u) \<noteq> VerificationApproved"
  then show "post_listing new_id now u b files
        = Inl (VerificationRequired 403 ''Identity verification required'')"
    by (simp add: post_listing_def verifiedOnly_def)
next
  assume "verification_status (verification u) = VerificationApproved"
  then show "post_listing new_id now u b files = create_listing_handler new_id now u b files"
    by (simp add: post_listing_def verifiedOnly_def)
next
  assume "verification_status (verification u) = VerificationApproved"
  then have "post_listing new_id now u b files = create_listing_handler new_id now u b files"
    by (simp add: post_listing_def verifiedOnly_def)
  then show "post_listing new_id now u b files
           \<noteq> Inl (VerificationRequired 403 ''Identity verification required'')"
    by (simp add: create_listing_handler_def Let_def split: location_field.splits option.splits)
next
  assume v: "verification_status (verification u) = VerificationApproved"
  assume ok: "create_validation b = [] \<and> body_price b = Some p \<and> body_location b = Location area city
          \<and> schema_errors
               (new_listing new_id now (user_id u) (trim (body_title b))
                  (trim (body_description b)) p (body_category b) (body_condition b) area city
                  (map (\<lambda>f. \<lparr>url = ''/uploads/'' @ f, filename = f\<rparr>) files)) = []"
  then show "\<exists>l. post_listing new_id now u b files = Inr l
                 \<and> moderationStatus l = ModerationPending \<and> status l = Active \<and> \<not> isDeleted l
                 \<and> seller l = user_id u \<and> listing_id l = new_id"
    using v by (simp add: post_listing_def verifiedOnly_def create_listing_handler_def Let_def
                          new_listing_def)
next
  assume r: "post_listing new_id now u b files = Inr l'"
  then show "verification_status (verification u) = VerificationApproved"
    by (auto simp: post_listing_def verifiedOnly_def split: if_splits)
  from r show "moderationStatus l' = ModerationPending"
    by (auto simp: post_listing_def verifiedOnly_def create_listing_handler_def Let_def
          new_listing_def split: if_splits location_field.splits option.splits)
  from r show "status l' = Active"
    by (auto simp: post_listing_def verifiedOnly_def create_listing_handler_def Let_def
          new_listing_def split: if_splits location_field.splits option.splits)
  from r show "\<not> isDeleted l'"
    by (auto simp: post_listing_def verifiedOnly_def create_listing_handler_def Let_def
          new_listing_def split: if_splits location_field.splits option.splits)
  from r show "deletedAt l' = None"
    by (auto simp: post_listing_def verifiedOnly_def create_listing_handler_def Let_def
          new_listing_def split: if_splits location_field.splits option.splits)
  from r show "seller l' = user_id u"
    by (auto simp: post_listing_def verifiedOnly_def create_listing_handler_def Let_def
          new_listing_def split: if_splits location_field.splits option.splits)
qed

lemma trim_chair: "trim ''Chair'' = ''Chair''"
  by code_simp

lemma trim_oak: "trim ''Oak, sturdy'' = ''Oak, sturdy''"
  by code_simp

theorem C9_create_witness:
  "verification_status (verification (new_user 3 ''eve'')) \<noteq> VerificationApproved
   \<and> post_listing 8 1000 (new_user 3 ''eve'')
         \<lparr>body_title = ''Chair'', body_description = ''Oak, sturdy'', body_price = Some 300,
          body_category = ''Furniture'', body_condition = ''Good'',
          body_location = Location ''Maadi'' None\<rparr> []
       = Inl (VerificationRequired 403 ''Identity verification required'')
   \<and> verification_status
         (verification ((new_user 1 ''sara'')
            \<lparr>verification := no_verification\<lparr>verification_status := VerificationApproved\<rparr>\<rparr>))
       = VerificationApproved
   \<and> (\<exists>l. post_listing 8 1000
              ((new_user 1 ''sara'')
                 \<lparr>verification := no_verification\<lparr>verification_status := VerificationApproved\<rparr>\<rparr>)
              \<lparr>body_title = ''Chair'', body_description = ''Oak, sturdy'', body_price = Some 300,
               body_category = ''Furniture'', body_condition = ''Good'',
               body_location = Location ''Maadi'' None\<rparr> []
            = Inr l
          \<and> moderationStatus l = ModerationPending \<and> status l = Active \<and> \<not> isDeleted l)"
proof -
  let ?b = "\<lparr>body_title = ''Chair'', body_description = ''Oak, sturdy'', body_price = Some 300,
             body_category = ''Furniture'', body_condition = ''Good'',
             body_location = Location ''Maadi'' None\<rparr>"
  let ?sara = "(new_user 1 ''sara'')
                 \<lparr>verification := no_verification\<lparr>verification_status := VerificationApproved\<rparr>\<rparr>"
  have e: "verification_status (verification (new_user 3 ''eve'')) \<noteq> VerificationApproved"
    by (simp add: new_user_def no_verification_def)
  have s: "verification_status (verification ?sara) = VerificationApproved"
    by simp
  have valid: "create_validation ?b = [] \<and> body_price ?b = Some 300
          \<and> body_location ?b = Location ''Maadi'' None
          \<and> schema_errors
               (new_listing 8 1000 (user_id ?sara) (trim (body_title ?b))
                  (trim (body_description ?b)) 300 (body_category ?b) (body_condition ?b)
                  ''Maadi'' None (map (\<lambda>f. \<lparr>url = ''/uploads/'' @ f, filename = f\<rparr>) [])) = []"
    by (simp add: create_validation_def schema_errors_def new_listing_def trim_chair trim_oak
          categories_def conditions_def areas_def)
  from C9_create [of "new_user 3 ''eve''" 8 1000 ?b "[]"] e
  have no: "post_listing 8 1000 (new_user 3 ''eve'') ?b []
              = Inl (VerificationRequired 403 ''Identity verification required'')"
    by blast
  from C9_create [of ?sara 8 1000 ?b "[]" 300 "''Maadi''" None] s valid
  have yes: "\<exists>l. post_listing 8 1000 ?sara ?b [] = Inr l
               \<and> moderationStatus l = ModerationPending \<and> status l = Active \<and> \<not> isDeleted l"
    by blast
  from e no s yes show ?thesis by blast
qed

lemma sweep_agrees_with_list_query:
  "isDeleted l \<Longrightarrow> moderationStatus l = Approved \<Longrightarrow> deletedAt l = Some d \<Longrightarrow>
   visibility_query now l \<longleftrightarrow> cleanupDeletedListings now [l] = [l]"
  by (auto simp: visibility_query_def cleanupDeletedListings_def Let_def)

lemma visibility_query_iff:
  "(visibility_query now l \<longleftrightarrow>
      moderationStatus l = Approved
      \<and> ((status l = Active \<and> \<not> isDeleted l)
         \<or> (isDeleted l \<and> (\<exists>d. deletedAt l = Some d \<and> now - d < two_days_ms))))
   \<and> (visibility_query now l \<longleftrightarrow>
      spec_isPubliclyVisible now l \<and> \<not> (isDeleted l \<and> deletedAt l = Some (now - two_days_ms)))"
  by (cases "deletedAt l") (auto simp: visibility_query_def spec_isPubliclyVisible_def Let_def)

lemma get_listing_soft_deleted:
  assumes "isDeleted l" and "deletedAt l = Some d"
  shows "get_listing now req_user (Some l) =
           (if now - d > two_days_ms then Inl (Failure 404 ''Listing no longer available'')
            else Inr (None, \<lparr>shown = l\<lparr>status := Sold\<rparr>,
                             deleteInfo = Some \<lparr>info_isDeleted = True,
                                                info_reason = deleteReason l,
                                                info_deletedAt = d\<rparr>,
                             shown_isFavorited = False\<rparr>))"
  using assms by (simp add: get_listing_def Let_def)

lemma get_listing_live_anonymous:
  assumes "\<not> isDeleted l"
  shows "get_listing now None (Some l) =
           (if moderationStatus l \<noteq> Approved
            then Inl (Failure 403 ''This listing is pending approval'')
            else Inr (Some (l\<lparr>views := views l + 1\<rparr>),
                      \<lparr>shown = l\<lparr>views := views l + 1\<rparr>, deleteInfo = None,
                       shown_isFavorited = False\<rparr>))"
  using assms by (simp add: get_listing_def Let_def)

lemma get_listing_live_gate:
  assumes "\<not> isDeleted l"
  shows "get_listing now (Some u) (Some l) = Inl (Failure 403 ''This listing is pending approval'')
         \<longleftrightarrow> moderationStatus l \<noteq> Approved \<and> user_id u \<noteq> seller l \<and> \<not> isAdmin u"
  using assms by (auto simp: get_listing_def Let_def)

text \<open>
  C1, at failing inputs. The claim makes one predicate decide every public read path:
  approved, and active and not deleted, or deleted at most two days ago. The read paths
  of the code disagree with it and with each other in two places.

  A listing that was never approved and that its owner soft-deletes (here at time 0) is
  not visible by the predicate, and the list query does not select it; the fetch by id
  answers the same listing to an anonymous caller as long as the window is open, shown
  as sold, although the same handler refuses the listing with 403 while it is not
  deleted.

  At exactly two days after the deletion of an approved listing the predicate still
  holds and the fetch by id still answers the listing, but the list query selects
  nothing. One millisecond later the fetch by id answers 404, as the claim says.
\<close>

theorem C1_read_paths_disagree:
  "soft_delete 0 (new_user 1 ''sara'') ''Item Sold'' (Some pending_lamp) = Inr deleted_pending_lamp
   \<and> get_listing 5000 None (Some pending_lamp)
       = Inl (Failure 403 ''This listing is pending approval'')
   \<and> spec_isPubliclyVisible 5000 deleted_pending_lamp = False
   \<and> find_visible 5000 [deleted_pending_lamp] = []
   \<and> get_listing 5000 None (Some deleted_pending_lamp)
       = Inr (None, \<lparr>shown = deleted_pending_lamp,
                     deleteInfo = Some \<lparr>info_isDeleted = True, info_reason = Some ''Item Sold'',
                                        info_deletedAt = 0\<rparr>,
                     shown_isFavorited = False\<rparr>)
   \<and> spec_isPubliclyVisible 172800000 deleted_lamp = True
   \<and> find_visible 172800000 [deleted_lamp] = []
   \<and> get_listing 172800000 None (Some deleted_lamp)
       = Inr (None, \<lparr>shown = deleted_lamp,
                     deleteInfo = Some \<lparr>info_isDeleted = True, info_reason = Some ''Item Sold'',
                                        info_deletedAt = 0\<rparr>,
                     shown_isFavorited = False\<rparr>)
   \<and> get_listing 172800001 None (Some deleted_lamp)
       = Inl (Failure 404 ''Listing no longer available'')"
  by (simp add: soft_delete_def delete_reasons_def spec_isPubliclyVisible_def
        visibility_query_def find_visible_def get_listing_def pending_lamp_def
        deleted_pending_lamp_def deleted_lamp_def lamp_def new_user_def two_days_ms_def Let_def)

section \<open>Properties of the content filter\<close>

lemma lit_consumed:
  "cur' \<in> set (lit ci w cur) \<Longrightarrow>
   \<exists>pre. snd cur = pre @ snd cur' \<and> (\<forall>c \<in> set pre. consumes ci (Lit w) c)"
proof (induction ci w cur rule: lit.induct)
  case (1 ci cur)
  then show ?case by simp
next
  case (2 ci a w p)
  then show ?case by simp
next
  case (3 ci a w p c cs)
  show ?case
  proof (cases "if ci then a \<in> set (case_variants c) else c = a")
    case True
    with 3 obtain pre where pre: "cs = pre @ snd cur'" "\<forall>x \<in> set pre. consumes ci (Lit w) x"
      by auto
    have "consumes ci (Lit (a # w)) c" using True by (auto split: if_splits)
    moreover have "\<forall>x \<in> set pre. consumes ci (Lit (a # w)) x"
      using pre(2) by (auto split: if_splits)
    ultimately have "\<forall>x \<in> set (c # pre). consumes ci (Lit (a # w)) x" by simp
    moreover have "snd (p, c # cs) = (c # pre) @ snd cur'" using pre(1) by simp
    ultimately show ?thesis by blast
  next
    case False
    with 3 show ?thesis by simp
  qed
qed

lemma rep_consumed:
  "cur' \<in> set (rep ci cls lo hi cur) \<Longrightarrow>
   \<exists>pre. snd cur = pre @ snd cur' \<and> (\<forall>c \<in> set pre. in_class ci cls c)"
proof (induction ci cls lo hi cur rule: rep.induct)
  case (1 ci cls lo hi p)
  then show ?case by (auto split: if_splits)
next
  case (2 ci cls lo hi p c cs)
  from "2.prems" consider
      (more) "in_class ci cls c" "hi \<noteq> Some 0"
             "cur' \<in> set (rep ci cls (lo - 1) (map_option (\<lambda>h. h - 1) hi) (Some c, cs))"
    | (stop) "cur' = (p, c # cs)"
    by (auto split: if_splits)
  then show ?case
  proof cases
    case more
    with "2.IH" obtain pre where pre: "cs = pre @ snd cur'" "\<forall>x \<in> set pre. in_class ci cls x"
      by auto
    have "snd (p, c # cs) = (c # pre) @ snd cur'" using pre(1) by simp
    moreover have "\<forall>x \<in> set (c # pre). in_class ci cls x" using pre(2) more(1) by simp
    ultimately show ?thesis by blast
  next
    case stop
    then show ?thesis by simp
  qed
qed

lemma ends_consumed:
  "cur' \<in> set (ends ci r cur) \<Longrightarrow>
   \<exists>pre. snd cur = pre @ snd cur' \<and> (\<forall>c \<in> set pre. consumes ci r c)"
proof (induction r arbitrary: cur cur')
  case (Lit w)
  then show ?case using lit_consumed [of cur' ci w cur] by simp
next
  case (Cls cls)
  then show ?case using rep_consumed [of cur' ci cls 1 "Some 1" cur] by simp
next
  case (Rep cls lo hi)
  then show ?case using rep_consumed [of cur' ci cls lo hi cur] by simp
next
  case WordB
  then show ?case by (auto split: if_splits)
next
  case (Opt r)
  from Opt.prems consider "cur' \<in> set (ends ci r cur)" | "cur' = cur" by auto
  then show ?case
  proof cases
    case 1
    from Opt.IH [OF this] show ?thesis by simp
  next
    case 2
    then show ?thesis by simp
  qed
next
  case (Alt r1 r2)
  from Alt.prems consider "cur' \<in> set (ends ci r1 cur)" | "cur' \<in> set (ends ci r2 cur)"
    by auto
  then show ?case
  proof cases
    case 1
    from Alt.IH(1) [OF this] show ?thesis by auto
  next
    case 2
    from Alt.IH(2) [OF this] show ?thesis by auto
  qed
next
  case (Seq r1 r2)
  from Seq.prems obtain mid where mid: "mid \<in> set (ends ci r1 cur)" "cur' \<in> set (ends ci r2 mid)"
    by auto
  from Seq.IH(1) [OF mid(1)] obtain pre1 where
    p1: "snd cur = pre1 @ snd mid" "\<forall>c \<in> set pre1. consumes ci r1 c" by blast
  from Seq.IH(2) [OF mid(2)] obtain pre2 where
    p2: "snd mid = pre2 @ snd cur'" "\<forall>c \<in> set pre2. consumes ci r2 c" by blast
  have "snd cur = (pre1 @ pre2) @ snd cur'" using p1(1) p2(1) by simp
  moreover have "\<forall>c \<in> set (pre1 @ pre2). consumes ci (Seq r1 r2) c"
    using p1(2) p2(2) by auto
  ultimately show ?case by blast
qed

lemma exec_at_consumed:
  assumes "exec_at pat (p, s) = Some n"
  shows "n \<le> length s \<and> (\<forall>c \<in> set (take n s). consumes (ignoreCase pat) (body pat) c)"
proof -
  from assms obtain e es where e: "ends (ignoreCase pat) (body pat) (p, s) = e # es"
    and n: "n = length s - length (snd e)"
    by (auto simp: exec_at_def split: list.splits)
  then have "e \<in> set (ends (ignoreCase pat) (body pat) (p, s))" by simp
  from ends_consumed [OF this] obtain pre where
    pre: "s = pre @ snd e" "\<forall>c \<in> set pre. consumes (ignoreCase pat) (body pat) c" by auto
  have "n = length pre" using n pre(1) by (metis add_diff_cancel_right' length_append)
  then have "take n s = pre" using pre(1) by (metis append_eq_conv_conj)
  with pre(2) \<open>n = length pre\<close> pre(1) show ?thesis
    by (metis le_add1 length_append)
qed

lemma brackets_drop_clean:
  "\<forall>c \<in> set (take n s). c \<noteq> CHR ''['' \<Longrightarrow> brackets (drop n s) = brackets s"
proof -
  assume a: "\<forall>c \<in> set (take n s). c \<noteq> CHR ''[''"
  have "brackets s = brackets (take n s) + brackets (drop n s)"
    by (metis append_take_drop_id count_list_append)
  moreover have "brackets (take n s) = 0" using a by (auto simp: count_list_0_iff)
  ultimately show ?thesis by simp
qed

lemma replace_from_keeps_brackets:
  "bracket_free pat \<Longrightarrow> \<forall>c \<in> set (take skip s). c \<noteq> CHR ''['' \<Longrightarrow>
   brackets s \<le> brackets (replace_from pat repl p s skip)"
proof (induction pat repl p s skip rule: replace_from.induct)
  case (1 pat repl p skip)
  then show ?case by simp
next
  case (2 pat repl p c cs skip)
  note clean_pat = "2.prems"(1)
  show ?case
  proof (cases "skip > 0")
    case True
    then obtain k where k: "skip = Suc k" by (cases skip) auto
    with "2.prems"(2) have c: "c \<noteq> CHR ''[''" and rest: "\<forall>x \<in> set (take k cs). x \<noteq> CHR ''[''"
      by auto
    from "2.IH"(1) [OF True clean_pat] rest k
    have "brackets cs \<le> brackets (replace_from pat repl (Some c) cs k)" by simp
    with c k show ?thesis by simp
  next
    case False
    then have z: "skip = 0" by simp
    show ?thesis
    proof (cases "exec_at pat (p, c # cs)")
      case None
      from "2.IH"(2) [OF False None clean_pat]
      have le: "brackets cs \<le> brackets (replace_from pat repl (Some c) cs 0)" by simp
      show ?thesis
      proof (cases "c = CHR ''[''")
        case True
        from True le z None show ?thesis by simp
      next
        case False
        from False le z None show ?thesis by simp
      qed
    next
      case (Some n)
      show ?thesis
      proof (cases "n = 0")
        case True
        from "2.IH"(3) [OF False Some True clean_pat]
        have le: "brackets cs \<le> brackets (replace_from pat repl (Some c) cs 0)" by simp
        show ?thesis
        proof (cases "c = CHR ''[''")
          case isb: True
          from isb le z Some True show ?thesis by simp
        next
          case notb: False
          from notb le z Some True show ?thesis by simp
        qed
      next
        case nz: False
        from exec_at_consumed [OF Some] clean_pat
        have clean: "\<forall>x \<in> set (take n (c # cs)). x \<noteq> CHR ''[''"
          by (auto simp: bracket_free_def)
        obtain k where k: "n = Suc k" using nz by (cases n) auto
        with clean have c: "c \<noteq> CHR ''[''" and rest: "\<forall>x \<in> set (take k cs). x \<noteq> CHR ''[''"
          by auto
        from "2.IH"(4) [OF False Some nz clean_pat] rest k
        have "brackets cs \<le> brackets (replace_from pat repl (Some c) cs (n - 1))" by simp
        with z Some nz c show ?thesis by simp
      qed
    qed
  qed
qed

lemma replace_from_adds_bracket:
  "bracket_free pat \<Longrightarrow> CHR ''['' \<in> set repl \<Longrightarrow>
   \<forall>c \<in> set (take skip s). c \<noteq> CHR ''['' \<Longrightarrow> matches_from pat p s skip \<noteq> [] \<Longrightarrow>
   brackets s < brackets (replace_from pat repl p s skip)"
proof (induction pat repl p s skip rule: replace_from.induct)
  case (1 pat repl p skip)
  have "brackets repl \<noteq> 0" using "1.prems"(2) by (simp add: count_list_0_iff)
  with 1 show ?case by (auto split: if_splits)
next
  case (2 pat repl p c cs skip)
  note clean_pat = "2.prems"(1) and has_bracket = "2.prems"(2)
  have "brackets repl \<noteq> 0" using has_bracket by (simp add: count_list_0_iff)
  then have pos: "0 < brackets repl" by simp
  show ?case
  proof (cases "skip > 0")
    case True
    then obtain k where k: "skip = Suc k" by (cases skip) auto
    with "2.prems"(3) have c: "c \<noteq> CHR ''[''" and rest: "\<forall>x \<in> set (take k cs). x \<noteq> CHR ''[''"
      by auto
    from "2.prems"(4) k have "matches_from pat (Some c) cs k \<noteq> []" by simp
    with "2.IH"(1) [OF True clean_pat has_bracket] rest k
    have "brackets cs < brackets (replace_from pat repl (Some c) cs k)" by simp
    with c k show ?thesis by simp
  next
    case False
    then have z: "skip = 0" by simp
    show ?thesis
    proof (cases "exec_at pat (p, c # cs)")
      case None
      with "2.prems"(4) z have "matches_from pat (Some c) cs 0 \<noteq> []" by simp
      with "2.IH"(2) [OF False None clean_pat has_bracket]
      have less: "brackets cs < brackets (replace_from pat repl (Some c) cs 0)" by simp
      show ?thesis
      proof (cases "c = CHR ''[''")
        case True
        from True less z None show ?thesis by simp
      next
        case False
        from False less z None show ?thesis by simp
      qed
    next
      case (Some n)
      show ?thesis
      proof (cases "n = 0")
        case True
        have le: "brackets cs \<le> brackets (replace_from pat repl (Some c) cs 0)"
          using replace_from_keeps_brackets [OF clean_pat, of 0 cs] by simp
        show ?thesis
        proof (cases "c = CHR ''[''")
          case isb: True
          from isb le z Some True pos show ?thesis by simp
        next
          case notb: False
          from notb le z Some True pos show ?thesis by simp
        qed
      next
        case nz: False
        from exec_at_consumed [OF Some] clean_pat
        have clean: "\<forall>x \<in> set (take n (c # cs)). x \<noteq> CHR ''[''"
          by (auto simp: bracket_free_def)
        obtain k where k: "n = Suc k" using nz by (cases n) auto
        with clean have c: "c \<noteq> CHR ''[''" and rest: "\<forall>x \<in> set (take k cs). x \<noteq> CHR ''[''"
          by auto
        have "brackets cs \<le> brackets (replace_from pat repl (Some c) cs k)"
          using replace_from_keeps_brackets [OF clean_pat, of k cs] rest by simp
        with z Some nz c pos k show ?thesis by simp
      qed
    qed
  qed
qed

lemma battery_bracket_free: "list_all (\<lambda>kp. bracket_free (snd kp)) battery"
  by code_simp

lemma apply_pattern_inv:
  assumes "bracket_free (snd kp)" and "CHR ''['' \<in> set (replacement opts)"
      and "filter_inv text st"
  shows "filter_inv text (apply_pattern opts text st kp)"
proof (cases "match_all (snd kp) text = []")
  case True
  with assms(3) show ?thesis by (simp add: apply_pattern_def)
next
  case False
  show ?thesis
  proof (cases "st_hasFiltered st")
    case True
    with assms(3) have "brackets text < brackets (st_filtered st)"
      by (simp add: filter_inv_def)
    moreover have "brackets (st_filtered st)
                     \<le> brackets (replace_all (snd kp) (replacement opts) (st_filtered st))"
      using replace_from_keeps_brackets [OF assms(1), of 0 "st_filtered st"]
      by (simp add: replace_all_def)
    ultimately show ?thesis using False by (simp add: apply_pattern_def filter_inv_def)
  next
    case nf: False
    with assms(3) have same: "st_filtered st = text" by (simp add: filter_inv_def)
    have "brackets text < brackets (replace_all (snd kp) (replacement opts) text)"
      using replace_from_adds_bracket [OF assms(1) assms(2), of 0 "text" None] False
      by (simp add: replace_all_def match_all_def)
    with same False show ?thesis by (simp add: apply_pattern_def filter_inv_def)
  qed
qed

lemma foldl_apply_pattern_inv:
  assumes "CHR ''['' \<in> set (replacement opts)"
  shows "list_all (\<lambda>kp. bracket_free (snd kp)) ps \<Longrightarrow> filter_inv text st \<Longrightarrow>
         filter_inv text (foldl (apply_pattern opts text) st ps)"
proof (induction ps arbitrary: st)
  case Nil
  then show ?case by simp
next
  case (Cons kp ps)
  from Cons.prems have "bracket_free (snd kp)" and rest: "list_all (\<lambda>kp. bracket_free (snd kp)) ps"
    by simp_all
  from apply_pattern_inv [OF this(1) assms Cons.prems(2)]
  have "filter_inv text (apply_pattern opts text st kp)" .
  from Cons.IH [OF rest this] show ?case by simp
qed

text \<open>
  The filter reports \<open>hasFiltered\<close> exactly when its output differs from its input.
\<close>

lemma hasFiltered_iff_altered:
  "hasFiltered (filterPersonalInfo text) \<longleftrightarrow> filtered (filterPersonalInfo text) \<noteq> text"
proof -
  let ?init = "\<lparr>st_filtered = text, st_hasFiltered = False, st_matches = []\<rparr>"
  let ?final = "foldl (apply_pattern default_options text) ?init battery"
  have r: "CHR ''['' \<in> set (replacement default_options)"
    by (simp add: default_options_def)
  have "filter_inv text ?init" by (simp add: filter_inv_def)
  from foldl_apply_pattern_inv [OF r battery_bracket_free this]
  have inv: "filter_inv text ?final" .
  have "st_hasFiltered ?final \<longleftrightarrow> st_filtered ?final \<noteq> text"
  proof
    assume "st_hasFiltered ?final"
    with inv have "brackets text < brackets (st_filtered ?final)" by (simp add: filter_inv_def)
    then show "st_filtered ?final \<noteq> text" by auto
  next
    assume "st_filtered ?final \<noteq> text"
    with inv show "st_hasFiltered ?final" by (auto simp: filter_inv_def split: if_splits)
  qed
  then show ?thesis
    by (simp add: filterPersonalInfo_def filterPersonalInfo_with_def Let_def)
qed

section \<open>Properties of messaging and notifications\<close>

lemma send_message_stores_filter_output:
  assumes "send_response (send_message new_id now users u raw mtype found) = Inr m"
  shows "content m = filtered (filterPersonalInfo (trim raw))
         \<and> isFiltered m = hasFiltered (filterPersonalInfo (trim raw))
         \<and> originalContent m = (if isFiltered m then Some (trim raw) else None)
         \<and> created_message (send_message new_id now users u raw mtype found) = Some m"
  using assms
  by (auto simp: send_message_def rejected_def Let_def split: option.splits if_splits)

lemma send_message_lastMessage:
  assumes "saved_conversation (send_message new_id now users u raw mtype found) = Some conv'"
  shows "map_option last_content (lastMessage conv') = Some (trim raw)"
  using assms
  by (auto simp: send_message_def rejected_def Let_def split: option.splits if_splits)

lemma send_message_isFiltered_iff_altered:
  assumes "send_response (send_message new_id now users u raw mtype found) = Inr m"
  shows "isFiltered m \<longleftrightarrow> content m \<noteq> trim raw"
  using send_message_stores_filter_output [OF assms] hasFiltered_iff_altered [of "trim raw"]
  by simp

lemma open_conversation_hides_original:
  assumes "open_conversation now u found stored = Inr (stored', conv', view)"
  shows "\<forall>m \<in> set (thread_messages view). originalContent m = None"
  using assms
  by (auto simp: open_conversation_def select_default_def Let_def
           split: option.splits if_splits)

lemma get_original_admin_only:
  "\<not> isAdmin u \<Longrightarrow>
   get_original u found = Inl (Failure 403 ''Not authorized - Admin access required'')"
  by (simp add: get_original_def)

lemma filter_glued:
  "filterPersonalInfo ''01012345678http://a.bc''
     = \<lparr>filtered = ''01012345678[HIDDEN]'', hasFiltered = True, matches = None\<rparr>"
  by code_simp

lemma glued_still_matches:
  "matched_patterns ''01012345678[HIDDEN]'' = [''phone_0'', ''phone_2'']"
  by code_simp

lemma trim_glued: "trim ''01012345678http://a.bc'' = ''01012345678http://a.bc''"
  by code_simp

text \<open>
  C2, at a failing input. The stored content is the output of the filter, the filtered
  flag is set and the original is kept; but for the message
  \<open>01012345678http://a.bc\<close> that output is \<open>01012345678[HIDDEN]\<close>, which
  still holds the phone number: in the raw text the number is followed by a letter, so
  no phone pattern matches there, and only the replacement of the URL puts it in front
  of a word boundary. The stored content matches the first and the third phone pattern.
\<close>

theorem C2_stored_content_matches_phone_pattern:
  "map_option (\<lambda>m. (content m, isFiltered m, originalContent m, matched_patterns (content m)))
     (created_message
        (send_message 30 1000 two_users (new_user 2 ''bob'') ''01012345678http://a.bc'' None
           (Some chat)))
   = Some (''01012345678[HIDDEN]'', True, Some ''01012345678http://a.bc'',
           [''phone_0'', ''phone_2''])"
  by (simp add: send_message_def Let_def trim_glued filter_glued glued_still_matches chat_def
        new_user_def message_types_def)

lemma filter_call_me:
  "filterPersonalInfo ''call me 01012345678''
     = \<lparr>filtered = ''call me [HIDDEN]'', hasFiltered = True, matches = None\<rparr>"
  by code_simp

lemma filter_hello:
  "filterPersonalInfo ''hello, interested in this!''
     = \<lparr>filtered = ''hello, interested in this!'', hasFiltered = False, matches = None\<rparr>"
  by code_simp

lemma trim_call_me: "trim ''call me 01012345678'' = ''call me 01012345678''"
  by code_simp

text \<open>
  C3, at a failing input. The message is stored with the filtered content, but the
  \<^verbatim>\<open>lastMessage\<close> snapshot of the conversation takes the text of the request before
  filtering, and the conversation list returns that snapshot to the other participant,
  who is not an admin: for \<open>call me 01012345678\<close> the message reads
  \<open>call me [HIDDEN]\<close> and the snapshot reads \<open>call me 01012345678\<close>.
\<close>

theorem C3_lastMessage_holds_raw_text:
  "map_option content
     (created_message
        (send_message 30 1000 two_users (new_user 2 ''bob'') ''call me 01012345678'' None
           (Some chat)))
     = Some ''call me [HIDDEN]''
   \<and> map (\<lambda>v. map_option last_content (lastMessage (view_conversation v)))
       (get_conversations (new_user 1 ''sara'')
          (case saved_conversation
                  (send_message 30 1000 two_users (new_user 2 ''bob'') ''call me 01012345678''
                     None (Some chat)) of
             None \<Rightarrow> [] | Some c \<Rightarrow> [c]))
     = [Some ''call me 01012345678'']
   \<and> isAdmin (new_user 1 ''sara'') = False"
  by (simp add: send_message_def Let_def trim_call_me filter_call_me chat_def
        new_user_def message_types_def get_conversations_def)

lemma push_slice_length: "length (push_slice xs each n) \<le> n"
  by (simp add: push_slice_def Let_def)

lemma push_slice_most_recent:
  "push_slice xs each n = drop (length xs + length each - n) (xs @ each)"
  by (simp add: push_slice_def Let_def)

lemma send_message_bounds_notifications:
  assumes "send_response (send_message new_id now users u raw mtype (Some conv)) = Inr m"
      and "find (\<lambda>p. p \<noteq> user_id u) (participants conv) = Some other"
      and "users other = Some r"
  shows "\<exists>r'. users_after (send_message new_id now users u raw mtype (Some conv)) other = Some r'
           \<and> length (notifications r') \<le> 50
           \<and> length (notifications r') = min 50 (length (notifications r) + 1)"
  using assms
  by (auto simp: send_message_def rejected_def Let_def push_slice_def split: if_splits)

text \<open>
  C4, at a failing input. The message path pushes with \<^verbatim>\<open>$slice: -50\<close> and keeps
  the list at fifty entries; the review of a verification and the moderation of a
  listing push without a slice. For a user who holds fifty notifications, a review and a
  moderation decision each leave fifty-one, while a new message leaves fifty.
\<close>

theorem C4_review_and_moderation_exceed_fifty:
  "length (notifications applicant) = 50
   \<and> map_sum id (\<lambda>out. length (notifications (reviewed_user out)))
       (review_verification 1000 (\<lambda>m. True) admin_user ''approve'' None (Some applicant))
     = Inr 51
   \<and> map_sum id (\<lambda>out. map_option (\<lambda>s. length (notifications s)) (notified_seller out))
       (moderate_listing 1000 (\<lambda>m. True) [1 \<mapsto> applicant] ''approve'' None (Some lamp))
     = Inr (Some 51)
   \<and> map_option (\<lambda>r. length (notifications r))
       (users_after
          (send_message 30 1000 [1 \<mapsto> applicant] (new_user 2 ''bob'')
             ''hello, interested in this!'' None (Some chat)) 1)
     = Some 50"
proof (intro conjI)
  show "length (notifications applicant) = 50"
    by (simp add: applicant_def)
  show "map_sum id (\<lambda>out. length (notifications (reviewed_user out)))
       (review_verification 1000 (\<lambda>m. True) admin_user ''approve'' None (Some applicant))
     = Inr 51"
    by (simp add: review_verification_def applicant_def no_verification_def Let_def)
  show "map_sum id (\<lambda>out. map_option (\<lambda>s. length (notifications s)) (notified_seller out))
       (moderate_listing 1000 (\<lambda>m. True) [1 \<mapsto> applicant] ''approve'' None (Some lamp))
     = Inr (Some 51)"
    by (simp add: moderate_listing_def applicant_def lamp_def Let_def)
  have t: "trim ''hello, interested in this!'' = ''hello, interested in this!''"
    by code_simp
  show "map_option (\<lambda>r. length (notifications r))
       (users_after
          (send_message 30 1000 [1 \<mapsto> applicant] (new_user 2 ''bob'')
             ''hello, interested in this!'' None (Some chat)) 1)
     = Some 50"
    by (simp add: send_message_def Let_def t filter_hello chat_def new_user_def
          message_types_def applicant_def push_slice_def)
qed

end
